theory Spec2Isabelle
  imports Complex_Main "HOL-Library.Word"
begin

section \<open>The SCADA gateway firmware (src/unnamed/part_007)\<close>

text \<open>
  The firmware is an Arduino sketch for the ESP32: \<^verbatim>\<open>setup()\<close> runs once, then
  \<^verbatim>\<open>loop()\<close> runs forever on a single thread. The model follows the sketch function by
  function.

  \<^item> \<^verbatim>\<open>unsigned long\<close> is 32 bits on the ESP32: a \<open>32 word\<close>, on which \<open>-\<close> wraps and
    \<open><\<close>, \<open>div\<close>, \<open>mod\<close> are unsigned, as in C++.
  \<^item> The energy counter (\<open>accumulated_energy\<close>, \<open>total_energy_kwh\<close>) is a value of
    the C++ \<^verbatim>\<open>float\<close> (binary32), and the arithmetic that feeds it and the scaled
    products of the register map are rounded as the ESP32 rounds them: to nearest, ties
    to even, \<^verbatim>\<open>float\<close> results to binary32 and \<^verbatim>\<open>double\<close> results to binary64.
    Each operation is rounded on its own: a product and the sum that takes it are two
    roundings.
  \<^item> The other \<^verbatim>\<open>float\<close> fields hold values that are computed afresh at every tick;
    they are modelled as \<open>real\<close>, and float arithmetic that reads one reads the float
    nearest to it. Infinities and NaN are outside the model.
  \<^item> Every call of \<^verbatim>\<open>millis()\<close>, \<^verbatim>\<open>random(lo, hi)\<close> and \<^verbatim>\<open>emon1.calcIrms(1484)\<close>
    reads the environment; each call is one field of an input record, so that two
    calls in one iteration may return different values.
  \<^item> Output that no later computation reads (LCD, serial log, the uplink POST) is left
    out; the HTTP responses are modelled, as functions of the state they read.
\<close>

subsection \<open>Binary floating point\<close>

text \<open>Rounding to the nearest integer, ties to the even one.\<close>

definition rne :: "real \<Rightarrow> int" where
  "rne x =
     (let f = \<lfloor>x\<rfloor>; r = x - of_int f
      in if r < 1 / 2 then f else if 1 / 2 < r then f + 1 else if even f then f else f + 1)"

text \<open>
  Rounding of a real to the nearest binary floating-point number with \<open>p\<close> bits of
  significand and least normal exponent \<open>emin\<close>, ties to even: the spacing of the
  numbers around \<open>x\<close> is \<open>2\<close> to the power \<open>e - p + 1\<close>, with \<open>e\<close> the exponent of \<open>x\<close>,
  and the subnormal spacing below \<open>2\<close> to the \<open>emin\<close>. Overflow to infinity is not
  modelled.
\<close>

definition binary_round :: "nat \<Rightarrow> int \<Rightarrow> real \<Rightarrow> real" where
  "binary_round p emin x =
     (if x = 0 then 0
      else (let e = max \<lfloor>log 2 \<bar>x\<bar>\<rfloor> emin; u = 2 powi (e - int p + 1)
            in of_int (rne (x / u)) * u))"

text \<open>The C++ types \<^verbatim>\<open>float\<close> (binary32) and \<^verbatim>\<open>double\<close> (binary64) of the ESP32.\<close>

definition float32 :: "real \<Rightarrow> real" where
  "float32 x = binary_round 24 (- 126) x"

definition float64 :: "real \<Rightarrow> real" where
  "float64 x = binary_round 53 (- 1022) x"

text \<open>The values of a \<^verbatim>\<open>float\<close> variable: the reals that binary32 represents.\<close>

typedef f32 = "{x :: real. float32 x = x}"
  morphisms f32_val Abs_f32
  by (rule exI [of _ 0]) (simp add: float32_def binary_round_def)

text \<open>Storing a real into a \<^verbatim>\<open>float\<close> variable rounds it.\<close>

definition to_f32 :: "real \<Rightarrow> f32" where
  "to_f32 x = Abs_f32 (float32 x)"

text \<open>
  The product of two \<^verbatim>\<open>float\<close> operands, a \<^verbatim>\<open>float\<close>. An operand that the model holds
  as a real is read as the float nearest to it; an integer constant such as 1000 is
  converted to \<^verbatim>\<open>float\<close> exactly.
\<close>

definition fmul :: "real \<Rightarrow> real \<Rightarrow> real" where
  "fmul a b = float32 (float32 a * float32 b)"

subsection \<open>Data\<close>

type_synonym millis = "32 word"

record SCADAData =
  current_rms :: real
  voltage :: real
  ac_power_kw :: real
  total_energy_kwh :: f32
  grid_frequency :: real
  power_factor :: real
  ambient_temp :: real
  irradiance :: real
  system_status :: int
  efficiency :: real
  timestamp :: millis

text \<open>
  The Modbus server's tables: holding registers (16 bits each), coils and discrete
  inputs, by address. \<^verbatim>\<open>mbServer.Hreg(a, v)\<close>, \<^verbatim>\<open>Coil(a, b)\<close> and \<^verbatim>\<open>Ists(a, b)\<close> store at an
  address that \<^verbatim>\<open>setup()\<close> has added; the sketch writes no other address.
\<close>

record modbus =
  Hreg :: "nat \<Rightarrow> 16 word"
  Coil :: "nat \<Rightarrow> bool"
  Ists :: "nat \<Rightarrow> bool"

text \<open>The global variables of the sketch.\<close>

record state =
  lastSendTime :: millis
  noiseFloor :: real
  calibrated :: bool
  calibrationStart :: millis
  calibrationReadings :: int
  calibrationSum :: real
  scadaData :: SCADAData
  accumulated_energy :: f32
  last_energy_update :: millis
  last_scada_update :: millis
  mbServer :: modbus

definition sendInterval :: millis where
  "sendInterval = 1000"

definition gridVoltage :: real where
  "gridVoltage = 220.0"

subsection \<open>Environment inputs\<close>

text \<open>
  What one call of \<^verbatim>\<open>updateSCADAData()\<close> reads, in the order of the calls:
  \<^verbatim>\<open>millis()\<close> at lines 409, 413, 435 and 422, and the five \<^verbatim>\<open>random\<close> results.
\<close>

record tick_inputs =
  t_energy :: millis
  t_stamp :: millis
  r_freq :: int
  r_pf :: int
  r_temp :: int
  t_irr :: millis
  r_irr :: int
  r_eff :: int
  t_ts :: millis

text \<open>
  Arduino's \<^verbatim>\<open>random(lo, hi)\<close> returns a value \<open>r\<close> with \<open>lo \<le> r < hi\<close>. The library
  is not part of the repository; its contract is a predicate on the inputs.
\<close>

definition random_ok :: "tick_inputs \<Rightarrow> bool" where
  "random_ok ti =
     (- 10 \<le> r_freq ti \<and> r_freq ti < 10 \<and>
      - 5 \<le> r_pf ti \<and> r_pf ti < 5 \<and>
      - 50 \<le> r_temp ti \<and> r_temp ti < 150 \<and>
      - 100 \<le> r_irr ti \<and> r_irr ti < 100 \<and>
      - 20 \<le> r_eff ti \<and> r_eff ti < 20)"

datatype http_method = HTTP_GET | HTTP_POST | HTTP_OTHER

text \<open>
  What one iteration of \<^verbatim>\<open>loop()\<close> reads: \<^verbatim>\<open>millis()\<close> at lines 173, 204, 208, 212
  and 279, the sensor at lines 174 and 222, the inputs of the slow tick, and the HTTP
  request that \<^verbatim>\<open>scadaServer.handleClient()\<close> finds pending, if any.
\<close>

record loop_inputs =
  t_cal :: millis
  cal_raw :: real
  http_request :: "(http_method \<times> string) option"
  t_slow :: millis
  tick :: tick_inputs
  t_slow_end :: millis
  t_fast :: millis
  raw :: real
  t_fast_end :: millis

subsection \<open>setup()\<close>

text \<open>
  The globals' initialisers (lines 40-70), the Modbus tables as \<^verbatim>\<open>setup()\<close> adds them
  (all zero and false, lines 144-147) and \<^verbatim>\<open>calibrationStart = millis()\<close> (line 167).
\<close>

definition setup_state :: "millis \<Rightarrow> state" where
  "setup_state t0 =
     \<lparr> lastSendTime = 0,
       noiseFloor = 0,
       calibrated = False,
       calibrationStart = t0,
       calibrationReadings = 0,
       calibrationSum = 0,
       scadaData = \<lparr> current_rms = 0, voltage = 0, ac_power_kw = 0,
                     total_energy_kwh = to_f32 0,
                     grid_frequency = 0, power_factor = 0, ambient_temp = 0, irradiance = 0,
                     system_status = 0, efficiency = 0, timestamp = 0 \<rparr>,
       accumulated_energy = to_f32 0,
       last_energy_update = 0,
       last_scada_update = 0,
       mbServer = \<lparr> Hreg = (\<lambda>a. 0), Coil = (\<lambda>a. False), Ists = (\<lambda>a. False) \<rparr> \<rparr>"

subsection \<open>simulateIrradiance() (lines 432-445)\<close>

definition simulateIrradiance :: "millis \<Rightarrow> int \<Rightarrow> real" where
  "simulateIrradiance now r =
     (let time_of_day = ((now div 1000) + (8 * 3600)) mod 86400;
          hour = real (unat time_of_day) / 3600
      in if hour < 6 \<or> hour > 18 then 0
         else (let irr = 1200 * sin (pi * (hour - 6) / 12)
               in max 0 (irr + real_of_int r)))"

subsection \<open>updateSCADAData() (lines 406-429)\<close>

text \<open>
  Lines 409-411: the elapsed milliseconds, an \<^verbatim>\<open>unsigned long\<close>, are divided as a
  \<^verbatim>\<open>double\<close> and stored in the \<^verbatim>\<open>float\<close> \<open>hours_elapsed\<close>; the product with the
  power and the sum with the accumulator are \<^verbatim>\<open>float\<close> operations.
\<close>

definition updateSCADAData :: "tick_inputs \<Rightarrow> state \<Rightarrow> state" where
  "updateSCADAData ti s =
     (let s1 = (if last_energy_update s > 0 then
                  (let hours_elapsed =
                         float32 (float64
                           (real (unat (t_energy ti - last_energy_update s)) / 3600000.0));
                       acc = to_f32 (f32_val (accumulated_energy s) +
                                     fmul (ac_power_kw (scadaData s)) hours_elapsed)
                   in s\<lparr> accumulated_energy := acc,
                         scadaData := (scadaData s)\<lparr> total_energy_kwh := acc \<rparr> \<rparr>)
                else s)
      in s1\<lparr> last_energy_update := t_stamp ti,
              scadaData := (scadaData s1)
                \<lparr> grid_frequency := 50.0 + real_of_int (r_freq ti) / 100.0,
                  power_factor := 0.95 + real_of_int (r_pf ti) / 1000.0,
                  ambient_temp := 25.0 + real_of_int (r_temp ti) / 10.0,
                  irradiance := simulateIrradiance (t_irr ti) (r_irr ti),
                  system_status := 1,
                  efficiency := 0.96 + real_of_int (r_eff ti) / 1000.0,
                  timestamp := t_ts ti \<rparr> \<rparr>)"

subsection \<open>updateModbusRegisters() (lines 377-403)\<close>

text \<open>
  The cast \<^verbatim>\<open>(uint16_t)x\<close> of a float drops the fraction (rounds towards zero). A
  result outside \<open>0 .. 65535\<close> is undefined in C++; the model keeps the low 16 bits
  there, and every register holds some 16-bit value in any case. The scaled value that
  is cast is a \<^verbatim>\<open>float\<close> product, rounded before the cast.
\<close>

definition to_uint16 :: "real \<Rightarrow> 16 word" where
  "to_uint16 x = word_of_int (if 0 \<le> x then \<lfloor>x\<rfloor> else \<lceil>x\<rceil>)"

definition updateModbusRegisters :: "state \<Rightarrow> state" where
  "updateModbusRegisters s =
     (let d = scadaData s; mb = mbServer s
      in s\<lparr> mbServer := mb
           \<lparr> Hreg := (Hreg mb)
               (30001 := to_uint16 (fmul (ac_power_kw d) 1000),
                30002 := to_uint16 (fmul (f32_val (total_energy_kwh d)) 100),
                30003 := to_uint16 (fmul (grid_frequency d) 100),
                30004 := to_uint16 (fmul (current_rms d) 1000),
                30005 := to_uint16 (float32 (voltage d)),
                30006 := to_uint16 (fmul (power_factor d) 1000),
                30007 := to_uint16 (fmul (ambient_temp d) 10),
                30008 := to_uint16 (float32 (irradiance d)),
                30009 := to_uint16 (fmul (efficiency d) 1000),
                30010 := word_of_int (system_status d)),
             Coil := (Coil mb)
               (1 := (system_status d = 1),
                2 := (ac_power_kw d > 0.1),
                3 := (irradiance d > 100),
                4 := (grid_frequency d > 49.5 \<and> grid_frequency d < 50.5)),
             Ists := (Ists mb)
               (1 := (ambient_temp d > 40),
                2 := (power_factor d < 0.9),
                3 := (efficiency d < 0.9),
                4 := False) \<rparr> \<rparr>)"

text \<open>
  Modelled from the spec: the decoder of the round-trip property (section 8). It is the
  polling client's, not the sketch's: the client divides the register by the scale
  factor that the register map (section 6) gives for the field.
\<close>

definition decode_reg :: "16 word \<Rightarrow> real \<Rightarrow> real" where
  "decode_reg w S = real (unat w) / S"

subsection \<open>pollModbusDevices() (lines 448-474)\<close>

text \<open>The body that would write \<^verbatim>\<open>scadaData\<close> is commented out: only a log line is left.\<close>

definition pollModbusDevices :: "state \<Rightarrow> state" where
  "pollModbusDevices s = s"

subsection \<open>The HTTP routes (setupSCADAServers(), lines 284-360)\<close>

text \<open>
  A JSON document as \<^verbatim>\<open>ArduinoJson\<close> builds it: an object is the list of its members in
  the order of the assignments.
\<close>

datatype json =
    JFloat real
  | JInt int
  | JUInt millis
  | JString string
  | JObject "(string \<times> json) list"

datatype http_body = JsonBody json | TextBody string | HtmlPage

record http_response =
  resp_code :: nat
  resp_type :: string
  resp_body :: http_body

text \<open>The handler of \<^verbatim>\<open>/scada/data\<close> (lines 292-313).\<close>

definition scada_data_doc :: "SCADAData \<Rightarrow> json" where
  "scada_data_doc d =
     JObject
       [(''ac_power_kw'', JFloat (ac_power_kw d)),
        (''total_energy_kwh'', JFloat (f32_val (total_energy_kwh d))),
        (''grid_frequency_hz'', JFloat (grid_frequency d)),
        (''power_factor'', JFloat (power_factor d)),
        (''ambient_temp_c'', JFloat (ambient_temp d)),
        (''irradiance_w_m2'', JFloat (irradiance d)),
        (''system_status'', JInt (system_status d)),
        (''efficiency'', JFloat (efficiency d)),
        (''current_rms'', JFloat (current_rms d)),
        (''voltage'', JFloat (voltage d)),
        (''timestamp'', JUInt (timestamp d))]"

text \<open>The handler of \<^verbatim>\<open>/scada/guardian\<close> (lines 316-348).\<close>

definition guardian_doc :: "SCADAData \<Rightarrow> json" where
  "guardian_doc d =
     (let morocco_ef = 0.81;
          export_mwh = (f32_val (total_energy_kwh d) * 0.98) / 1000.0
      in JObject
       [(''methodology'', JString ''GCCM001_v4''),
        (''reporting_period'', JString ''2025-09-21T00:00:00Z''),
        (''project_info'', JObject
           [(''project_name'', JString ''VerifiedCC ESP32 Demo''),
            (''project_id'', JString ''VCC-ESP32-001''),
            (''location'', JString ''Casablanca, Morocco''),
            (''capacity_mw'', JFloat 0.001)]),
        (''monitoring_data'', JObject
           [(''gross_generation_mwh'', JFloat (f32_val (total_energy_kwh d) / 1000.0)),
            (''net_export_mwh'', JFloat ((f32_val (total_energy_kwh d) * 0.98) / 1000.0)),
            (''capacity_factor'', JFloat ((ac_power_kw d / 0.001) * 100)),
            (''average_irradiance'', JFloat (irradiance d)),
            (''current_rms'', JFloat (current_rms d))]),
        (''calculations'', JObject
           [(''baseline_emissions_tco2'', JFloat (export_mwh * morocco_ef)),
            (''project_emissions_tco2'', JInt 0),
            (''emission_reductions_tco2'', JFloat (export_mwh * morocco_ef))])])"

text \<open>
  The routes registered with \<^verbatim>\<open>scadaServer.on(uri, HTTP_GET, handler)\<close>, and the
  \<^verbatim>\<open>onNotFound\<close> handler for every other request. The handlers read \<^verbatim>\<open>scadaData\<close>
  and write no global: serving is a function of the state, with no new state.
\<close>

definition handleClient :: "http_method \<times> string \<Rightarrow> state \<Rightarrow> http_response" where
  "handleClient req s =
     (if req = (HTTP_GET, ''/scada/data'') then
        \<lparr> resp_code = 200, resp_type = ''application/json'',
          resp_body = JsonBody (scada_data_doc (scadaData s)) \<rparr>
      else if req = (HTTP_GET, ''/scada/guardian'') then
        \<lparr> resp_code = 200, resp_type = ''application/json'',
          resp_body = JsonBody (guardian_doc (scadaData s)) \<rparr>
      else if req = (HTTP_GET, ''/'') then
        \<lparr> resp_code = 200, resp_type = ''text/html'', resp_body = HtmlPage \<rparr>
      else
        \<lparr> resp_code = 404, resp_type = ''text/plain'',
          resp_body = TextBody ''SCADA Endpoint Not Found'' \<rparr>)"

text \<open>Reading a member of a JSON object, as a client does.\<close>

fun json_member :: "json \<Rightarrow> string \<Rightarrow> json option" where
  "json_member (JObject kvs) k = map_of kvs k"
| "json_member _ k = None"

subsection \<open>loop() (lines 171-281)\<close>

text \<open>
  Lines 173-183: one calibration sample, then \<^verbatim>\<open>return\<close>. The counter is a C++
  \<^verbatim>\<open>int\<close>; each sample takes more than 200 ms, so a window of 120 s holds far fewer
  than \<open>2 ^ 31\<close> of them, and the model counts in \<open>int\<close> without a bound.
\<close>

definition in_calibration :: "loop_inputs \<Rightarrow> state \<Rightarrow> bool" where
  "in_calibration e s = (\<not> calibrated s \<and> t_cal e - calibrationStart s < 120000)"

definition calibration_sample :: "loop_inputs \<Rightarrow> state \<Rightarrow> state" where
  "calibration_sample e s =
     s\<lparr> calibrationSum := calibrationSum s + cal_raw e,
        calibrationReadings := calibrationReadings s + 1 \<rparr>"

text \<open>
  Lines 185-195. The division is a float division: with \<open>calibrationReadings = 0\<close> the
  sketch stores NaN, which the model cannot represent (HOL gives 0); the theorem on
  calibration shows the count is positive here on every run that starts in the window.
\<close>

definition finish_calibration :: "state \<Rightarrow> state" where
  "finish_calibration s =
     (if \<not> calibrated s then
        s\<lparr> noiseFloor := calibrationSum s / real_of_int (calibrationReadings s),
           calibrated := True \<rparr>
      else s)"

text \<open>Lines 204-209: the slow tick, every 5 s.\<close>

definition slow_due :: "loop_inputs \<Rightarrow> state \<Rightarrow> bool" where
  "slow_due e s = (t_slow e - last_scada_update s > 5000)"

definition slow_tick :: "loop_inputs \<Rightarrow> state \<Rightarrow> state" where
  "slow_tick e s =
     (pollModbusDevices (updateModbusRegisters (updateSCADAData (tick e) s)))
       \<lparr> last_scada_update := t_slow_end e \<rparr>"

text \<open>Lines 212-280: the fast tick, every second.\<close>

definition fast_due :: "loop_inputs \<Rightarrow> state \<Rightarrow> bool" where
  "fast_due e s = (t_fast e - lastSendTime s > sendInterval)"

definition fast_tick :: "loop_inputs \<Rightarrow> state \<Rightarrow> state" where
  "fast_tick e s =
     (let rawCurrent = raw e;
          Irms0 = rawCurrent - noiseFloor s;
          Irms = (if Irms0 < 0.01 then 0.0 else Irms0);
          watts0 = Irms * gridVoltage;
          watts = (if watts0 < 1.0 then 0.0 else watts0)
      in s\<lparr> scadaData := (scadaData s)
               \<lparr> current_rms := Irms,
                 voltage := gridVoltage,
                 ac_power_kw := watts / 1000.0 \<rparr>,
            lastSendTime := t_fast_end e \<rparr>)"

definition loop :: "loop_inputs \<Rightarrow> state \<Rightarrow> state" where
  "loop e s =
     (if in_calibration e s then calibration_sample e s
      else
        (let s1 = finish_calibration s;
             s2 = (if slow_due e s1 then slow_tick e s1 else s1);
             s3 = (if fast_due e s2 then fast_tick e s2 else s2)
         in s3))"

text \<open>
  Line 198, \<^verbatim>\<open>mbServer.task()\<close>, answers the read requests of polling clients from
  the tables as they stand at the start of the iteration's ticks; it does not change
  the state. Clients that write coils or registers are not modelled.
\<close>

text \<open>The process: \<^verbatim>\<open>loop()\<close> again and again, one input record per iteration.\<close>

primrec run :: "loop_inputs list \<Rightarrow> state \<Rightarrow> state" where
  "run [] s = s"
| "run (e # es) s = run es (loop e s)"

text \<open>
  What \<^verbatim>\<open>scadaServer.handleClient()\<close> (line 201) answers in an iteration: nothing while
  the calibration branch returns early, else the response to the pending request,
  served before the ticks of this iteration write anything.
\<close>

definition loop_response :: "loop_inputs \<Rightarrow> state \<Rightarrow> http_response option" where
  "loop_response e s =
     (if in_calibration e s then None
      else map_option (\<lambda>req. handleClient req (finish_calibration s)) (http_request e))"

subsection \<open>Sample inputs\<close>

text \<open>
  An iteration in which every clock call reads \<open>t\<close>, the sensor reads 0 A, every
  random draw is 0 and no request is pending; concrete runs below vary it field by field.
\<close>

definition at_time :: "millis \<Rightarrow> loop_inputs" where
  "at_time t =
     \<lparr> t_cal = t, cal_raw = 0, http_request = None, t_slow = t,
       tick = \<lparr> t_energy = t, t_stamp = t, r_freq = 0, r_pf = 0, r_temp = 0,
                t_irr = t, r_irr = 0, r_eff = 0, t_ts = t \<rparr>,
       t_slow_end = t, t_fast = t, raw = 0, t_fast_end = t \<rparr>"

text \<open>
  A state in operation: calibrated with a noise floor of 0 A, the last ticks stamped
  around 120 s, and the given energy total and power in the record.
\<close>

definition metered :: "real \<Rightarrow> real \<Rightarrow> state" where
  "metered kwh kw =
     (setup_state 0)
       \<lparr> lastSendTime := 120000, calibrated := True, calibrationReadings := 1,
         scadaData := (scadaData (setup_state 0))
           \<lparr> voltage := 220, ac_power_kw := kw, total_energy_kwh := to_f32 kwh,
             system_status := 1 \<rparr>,
         accumulated_energy := to_f32 kwh,
         last_energy_update := 120001,
         last_scada_update := 120000 \<rparr>"

subsection \<open>Invariants\<close>

text \<open>
  The energy invariant of the process: the measured power is never negative, and the
  snapshot's energy field is the accumulator.
\<close>

definition energy_ok :: "state \<Rightarrow> bool" where
  "energy_ok s =
     (0 \<le> ac_power_kw (scadaData s) \<and> total_energy_kwh (scadaData s) = accumulated_energy s)"

text \<open>The alarm inputs of the register map are all clear.\<close>

definition no_alarm :: "state \<Rightarrow> bool" where
  "no_alarm s = (\<not> Ists (mbServer s) 1 \<and> \<not> Ists (mbServer s) 2 \<and> \<not> Ists (mbServer s) 3)"

text \<open>The ranges of the four simulated fields that the flags of the register map test.\<close>

definition simulated_in_range :: "SCADAData \<Rightarrow> bool" where
  "simulated_in_range d =
     (49.90 \<le> grid_frequency d \<and> grid_frequency d \<le> 50.09 \<and>
      0.945 \<le> power_factor d \<and> power_factor d \<le> 0.954 \<and>
      0.940 \<le> efficiency d \<and> efficiency d \<le> 0.979 \<and>
      20.0 \<le> ambient_temp d \<and> ambient_temp d \<le> 39.9)"

subsection \<open>Between two slow ticks\<close>

text \<open>
  An iteration refreshes the snapshot when it runs the slow tick, and measures when it
  runs the fast tick (whose test reads \<open>lastSendTime\<close>, which only the fast tick
  writes). The lists say that no iteration of a stretch of the run does.
\<close>

definition refreshes :: "loop_inputs \<Rightarrow> state \<Rightarrow> bool" where
  "refreshes e s = (\<not> in_calibration e s \<and> slow_due e (finish_calibration s))"

definition measures :: "loop_inputs \<Rightarrow> state \<Rightarrow> bool" where
  "measures e s = (\<not> in_calibration e s \<and> fast_due e s)"

fun no_refresh :: "loop_inputs list \<Rightarrow> state \<Rightarrow> bool" where
  "no_refresh [] s = True"
| "no_refresh (e # es) s = (\<not> refreshes e s \<and> no_refresh es (loop e s))"

fun no_measure :: "loop_inputs list \<Rightarrow> state \<Rightarrow> bool" where
  "no_measure [] s = True"
| "no_measure (e # es) s = (\<not> measures e s \<and> no_measure es (loop e s))"

text \<open>The fields of the snapshot that only the slow tick writes.\<close>

definition slow_fields :: "SCADAData \<Rightarrow> f32 \<times> real \<times> real \<times> real \<times> real \<times> int \<times> real \<times> millis" where
  "slow_fields d =
     (total_energy_kwh d, grid_frequency d, power_factor d, ambient_temp d, irradiance d,
      system_status d, efficiency d, timestamp d)"

subsection \<open>The spec's models\<close>

text \<open>
  The irradiance model in the spec's words (section 4.3): the hour of the day from the
  timestamp in milliseconds, taken in whole seconds, and an offset in seconds; zero
  outside 6 to 18 h, else the sine arc plus the jitter, not below zero.
\<close>

definition hourOfDay_spec :: "nat \<Rightarrow> nat \<Rightarrow> real" where
  "hourOfDay_spec offsetSeconds nowTimestamp =
     real ((nowTimestamp div 1000 + offsetSeconds) mod 86400) / 3600"

definition irradiance_spec :: "nat \<Rightarrow> nat \<Rightarrow> real \<Rightarrow> real" where
  "irradiance_spec offsetSeconds nowTimestamp jitter =
     (if hourOfDay_spec offsetSeconds nowTimestamp < 6 \<or> hourOfDay_spec offsetSeconds nowTimestamp > 18
      then 0
      else max 0 (1200 * sin (pi * (hourOfDay_spec offsetSeconds nowTimestamp - 6) / 12) + jitter))"

text \<open>
  The round trip in the spec's words (section 8): decoding the register of a value
  gives the value back within the resolution \<open>1 / S\<close>.
\<close>

definition within_resolution :: "real \<Rightarrow> real \<Rightarrow> 16 word \<Rightarrow> bool" where
  "within_resolution v S w = (\<bar>decode_reg w S - v\<bar> < 1 / S)"

section \<open>Properties\<close>

subsection \<open>Rounding\<close>

lemma rne_of_int [simp]: "rne (of_int n) = n"
  by (simp add: rne_def)

lemma rne_zero [simp]: "rne 0 = 0"
  using rne_of_int [of 0] by simp

lemma rne_bounds: "x - 1 / 2 \<le> of_int (rne x)" "of_int (rne x) \<le> x + 1 / 2"
proof -
  define f where "f = \<lfloor>x\<rfloor>"
  have "of_int f \<le> x" "x < of_int f + 1"
    unfolding f_def by linarith+
  then show "x - 1 / 2 \<le> of_int (rne x)" "of_int (rne x) \<le> x + 1 / 2"
    unfolding rne_def f_def [symmetric] Let_def by (auto split: if_splits)
qed

lemma rne_floor_bounds: "\<lfloor>x\<rfloor> \<le> rne x" "rne x \<le> \<lfloor>x\<rfloor> + 1"
  by (simp_all add: rne_def Let_def)

lemma rne_mono:
  assumes "x \<le> y"
  shows "rne x \<le> rne y"
proof (cases "\<lfloor>x\<rfloor> = \<lfloor>y\<rfloor>")
  case True
  then show ?thesis
    using assms by (auto simp add: rne_def Let_def)
next
  case False
  then have "\<lfloor>x\<rfloor> < \<lfloor>y\<rfloor>"
    using assms floor_mono [of x y] by linarith
  then show ?thesis
    using rne_floor_bounds(2) [of x] rne_floor_bounds(1) [of y] by linarith
qed

lemma rne_minus: "rne (- x) = - rne x"
proof (cases "x = of_int \<lfloor>x\<rfloor>")
  case True
  then have "rne (- of_int \<lfloor>x\<rfloor>) = - rne (of_int \<lfloor>x\<rfloor>)"
    unfolding of_int_minus [symmetric] rne_of_int by simp
  then show ?thesis
    using True by simp
next
  case False
  define f where "f = \<lfloor>x\<rfloor>"
  have frac: "of_int f < x" "x < of_int f + 1"
    using False unfolding f_def by linarith+
  then have "\<lfloor>- x\<rfloor> = - f - 1"
    by (intro floor_unique) simp_all
  then show ?thesis
    using frac unfolding rne_def f_def [symmetric] Let_def by (auto split: if_splits)
qed

lemma two_powi_nat: "0 \<le> k \<Longrightarrow> (2::real) powi k = of_int (2 ^ nat k)"
  by (simp add: power_int_def)

lemma two_powi_quot: "(2::real) powi a / 2 powi b = 2 powi (a - b)"
  by (simp add: power_int_diff)

lemma two_powi_prod: "(2::real) powi a * 2 powi b = 2 powi (a + b)"
  by (simp add: power_int_add)

lemma binary_round_char:
  assumes "emin \<le> e" and "\<bar>x\<bar> < 2 powi (e + 1)" and "e = emin \<or> 2 powi e \<le> \<bar>x\<bar>"
  shows "binary_round p emin x =
         of_int (rne (x / 2 powi (e - int p + 1))) * 2 powi (e - int p + 1)"
proof (cases "x = 0")
  case True
  then show ?thesis
    by (simp add: binary_round_def)
next
  case False
  then have pos: "0 < \<bar>x\<bar>"
    by simp
  have upper: "\<bar>x\<bar> < 2 powr (real_of_int e + 1)"
    using assms(2) powr_real_of_int' [of 2 "e + 1"] by simp
  have "max \<lfloor>log 2 \<bar>x\<bar>\<rfloor> emin = e"
  proof (cases "2 powi e \<le> \<bar>x\<bar>")
    case True
    then have "2 powr real_of_int e \<le> \<bar>x\<bar>"
      using powr_real_of_int' [of 2 e] by simp
    with upper have "\<lfloor>log 2 \<bar>x\<bar>\<rfloor> = e"
      using floor_log_eq_powr_iff [OF pos, of 2 e] by simp
    with assms(1) show ?thesis
      by simp
  next
    case False
    then have "e = emin"
      using assms(3) by simp
    have "log 2 \<bar>x\<bar> < real_of_int e + 1"
      using upper pos by (simp add: less_powr_iff)
    then have "\<lfloor>log 2 \<bar>x\<bar>\<rfloor> \<le> e"
      by (simp add: floor_le_iff)
    with \<open>e = emin\<close> show ?thesis
      by simp
  qed
  with False show ?thesis
    by (simp add: binary_round_def Let_def)
qed

lemma binary_exponent:
  fixes x :: real
  obtains e where "emin \<le> e" and "\<bar>x\<bar> < 2 powi (e + 1)" and "e = emin \<or> 2 powi e \<le> \<bar>x\<bar>"
proof (cases "x = 0")
  case True
  show ?thesis
    by (rule that [of emin]) (simp_all add: True)
next
  case False
  then have pos: "0 < \<bar>x\<bar>"
    by simp
  define l where "l = \<lfloor>log 2 \<bar>x\<bar>\<rfloor>"
  have "2 powr real_of_int l \<le> \<bar>x\<bar> \<and> \<bar>x\<bar> < 2 powr (real_of_int l + 1)"
    using floor_log_eq_powr_iff [OF pos, of 2 l] by (simp add: l_def)
  then have l: "2 powi l \<le> \<bar>x\<bar>" "\<bar>x\<bar> < 2 powi (l + 1)"
    using powr_real_of_int' [of 2 l] powr_real_of_int' [of 2 "l + 1"] by simp_all
  show ?thesis
  proof (cases "emin \<le> l")
    case True
    then show ?thesis
      using l by (intro that [of l]) simp_all
  next
    case False
    then have "l + 1 \<le> emin + 1"
      by simp
    then have "(2::real) powi (l + 1) \<le> 2 powi (emin + 1)"
      by (intro power_int_increasing) simp_all
    with l(2) show ?thesis
      by (intro that [of emin]) simp_all
  qed
qed

lemma binary_round_minus: "binary_round p emin (- x) = - binary_round p emin x"
proof -
  obtain e where e: "emin \<le> e" "\<bar>x\<bar> < 2 powi (e + 1)" "e = emin \<or> 2 powi e \<le> \<bar>x\<bar>"
    by (rule binary_exponent)
  then have "binary_round p emin (- x) =
      of_int (rne (- x / 2 powi (e - int p + 1))) * 2 powi (e - int p + 1)"
    by (intro binary_round_char) simp_all
  moreover have "binary_round p emin x =
      of_int (rne (x / 2 powi (e - int p + 1))) * 2 powi (e - int p + 1)"
    using e by (intro binary_round_char) simp_all
  moreover have "rne (- x / 2 powi (e - int p + 1)) = - rne (x / 2 powi (e - int p + 1))"
    using rne_minus [of "x / 2 powi (e - int p + 1)"] by simp
  ultimately show ?thesis
    by simp
qed

lemma binary_round_nonneg:
  assumes "0 \<le> x"
  shows "0 \<le> binary_round p emin x"
proof -
  obtain e where e: "emin \<le> e" "\<bar>x\<bar> < 2 powi (e + 1)" "e = emin \<or> 2 powi e \<le> \<bar>x\<bar>"
    by (rule binary_exponent)
  have "0 \<le> x / 2 powi (e - int p + 1)"
    using assms by simp
  then have "rne 0 \<le> rne (x / 2 powi (e - int p + 1))"
    by (rule rne_mono)
  then have "0 \<le> rne (x / 2 powi (e - int p + 1))"
    by simp
  then show ?thesis
    unfolding binary_round_char [OF e] by simp
qed

lemma binary_round_upper:
  assumes "emin \<le> e" and "\<bar>x\<bar> < 2 powi (e + 1)" and "e = emin \<or> 2 powi e \<le> \<bar>x\<bar>"
  shows "binary_round p emin x \<le> 2 powi (e + 1)"
proof -
  define u :: real where "u = 2 powi (e - int p + 1)"
  have u: "0 < u"
    by (simp add: u_def)
  have "x \<le> 2 powi (e + 1)"
    using assms(2) by simp
  then have "x / u \<le> 2 powi (e + 1) / u"
    using u by (simp add: divide_right_mono)
  also have "2 powi (e + 1) / u = of_int (2 ^ p)"
    unfolding u_def two_powi_quot by (simp add: two_powi_nat)
  finally have "rne (x / u) \<le> rne (of_int (2 ^ p))"
    by (rule rne_mono)
  then have "of_int (rne (x / u)) \<le> (of_int (2 ^ p) :: real)"
    unfolding rne_of_int by (simp only: of_int_le_iff)
  then have "of_int (rne (x / u)) * u \<le> of_int (2 ^ p) * u"
    using u by (simp add: mult_right_mono)
  also have "of_int (2 ^ p) * u = 2 powi (e + 1)"
    using two_powi_prod [of "int p" "e - int p + 1"] by (simp add: u_def two_powi_nat)
  finally show ?thesis
    unfolding binary_round_char [OF assms] u_def .
qed

lemma binary_round_lower:
  assumes "emin \<le> e" and "2 powi e \<le> x" and "x < 2 powi (e + 1)" and "1 \<le> p"
  shows "2 powi e \<le> binary_round p emin x"
proof -
  define u :: real where "u = 2 powi (e - int p + 1)"
  have u: "0 < u"
    by (simp add: u_def)
  have x: "0 < x"
    using assms(2) zero_less_power_int [of "2::real" e] by linarith
  have char: "binary_round p emin x = of_int (rne (x / u)) * u"
    unfolding u_def using assms x by (intro binary_round_char) simp_all
  have "2 powi e / u = of_int (2 ^ (p - 1))"
    unfolding u_def two_powi_quot using assms(4)
    by (simp add: two_powi_nat nat_diff_distrib)
  moreover have "2 powi e / u \<le> x / u"
    using u assms(2) by (simp add: divide_right_mono)
  ultimately have "rne (of_int (2 ^ (p - 1))) \<le> rne (x / u)"
    by (intro rne_mono) simp
  then have "(of_int (2 ^ (p - 1)) :: real) \<le> of_int (rne (x / u))"
    unfolding rne_of_int by (simp only: of_int_le_iff)
  then have "of_int (2 ^ (p - 1)) * u \<le> of_int (rne (x / u)) * u"
    using u by (simp add: mult_right_mono)
  moreover have "of_int (2 ^ (p - 1)) * u = 2 powi e"
    using two_powi_prod [of "int p - 1" "e - int p + 1"] assms(4)
    by (simp add: u_def two_powi_nat nat_diff_distrib)
  ultimately show ?thesis
    using char by simp
qed

lemma binary_round_mono_nonneg:
  assumes "0 \<le> x" and "x \<le> y" and "1 \<le> p"
  shows "binary_round p emin x \<le> binary_round p emin y"
proof -
  obtain ex where ex: "emin \<le> ex" "\<bar>x\<bar> < 2 powi (ex + 1)" "ex = emin \<or> 2 powi ex \<le> \<bar>x\<bar>"
    by (rule binary_exponent)
  obtain ey where ey: "emin \<le> ey" "\<bar>y\<bar> < 2 powi (ey + 1)" "ey = emin \<or> 2 powi ey \<le> \<bar>y\<bar>"
    by (rule binary_exponent)
  have abs: "\<bar>x\<bar> = x" "\<bar>y\<bar> = y"
    using assms by simp_all
  consider "ex = ey" | "ex < ey" | "ey < ex"
    by linarith
  then show ?thesis
  proof cases
    case 1
    have "x / 2 powi (ey - int p + 1) \<le> y / 2 powi (ey - int p + 1)"
      using assms(2) by (simp add: divide_right_mono)
    then have "rne (x / 2 powi (ey - int p + 1)) \<le> rne (y / 2 powi (ey - int p + 1))"
      by (rule rne_mono)
    then have "of_int (rne (x / 2 powi (ey - int p + 1))) * 2 powi (ey - int p + 1) \<le>
               of_int (rne (y / 2 powi (ey - int p + 1))) * (2::real) powi (ey - int p + 1)"
      by (simp add: mult_right_mono)
    then show ?thesis
      using binary_round_char [OF ex, of p] binary_round_char [OF ey, of p] 1 by simp
  next
    case 2
    then have "2 powi ey \<le> y"
      using ey(3) ex(1) abs by simp
    then have low: "2 powi ey \<le> binary_round p emin y"
      using ey abs assms(3) by (intro binary_round_lower) simp_all
    have "binary_round p emin x \<le> 2 powi (ex + 1)"
      using ex by (rule binary_round_upper)
    also have "(2::real) powi (ex + 1) \<le> 2 powi ey"
      using 2 by (intro power_int_increasing) simp_all
    finally show ?thesis
      using low by simp
  next
    case 3
    then have "2 powi ex \<le> x"
      using ex(3) ey(1) abs by simp
    moreover have "(2::real) powi (ey + 1) \<le> 2 powi ex"
      using 3 by (intro power_int_increasing) simp_all
    ultimately have "y < x"
      using ey(2) abs by simp
    with assms(2) show ?thesis
      by simp
  qed
qed

lemma binary_round_mono:
  assumes "x \<le> y" and "1 \<le> p"
  shows "binary_round p emin x \<le> binary_round p emin y"
proof -
  consider "0 \<le> x" | "y \<le> 0" | "x < 0" "0 < y"
    by linarith
  then show ?thesis
  proof cases
    case 1
    then show ?thesis
      using assms by (rule binary_round_mono_nonneg)
  next
    case 2
    then have "binary_round p emin (- y) \<le> binary_round p emin (- x)"
      using assms by (intro binary_round_mono_nonneg) simp_all
    then show ?thesis
      by (simp add: binary_round_minus)
  next
    case 3
    have "0 \<le> binary_round p emin (- x)" "0 \<le> binary_round p emin y"
      using 3 by (simp_all add: binary_round_nonneg)
    then show ?thesis
      by (simp add: binary_round_minus)
  qed
qed

lemma rne_scaled_int:
  assumes "0 \<le> d"
  shows "of_int (rne (of_int m * 2 powi d)) = of_int m * (2::real) powi d"
proof -
  have "of_int m * (2::real) powi d = of_int (m * 2 ^ nat d)"
    using assms by (simp add: two_powi_nat)
  then show ?thesis
    by (simp only: rne_of_int)
qed

lemma binary_round_exact:
  assumes "\<bar>m\<bar> \<le> 2 ^ p" and "emin - int p + 1 \<le> k" and "1 \<le> p"
  shows "binary_round p emin (of_int m * 2 powi k) = of_int m * 2 powi k"
proof -
  define v :: real where "v = of_int m * 2 powi k"
  have absv: "\<bar>v\<bar> = of_int \<bar>m\<bar> * 2 powi k"
    by (simp add: v_def abs_mult)
  show ?thesis
  proof (cases "\<bar>m\<bar> = 2 ^ p")
    case True
    then have top: "\<bar>v\<bar> = 2 powi (int p + k)"
      using two_powi_prod [of "int p" k] by (simp add: absv two_powi_nat)
    have "(2::real) powi (int p + k) < 2 powi (int p + k + 1)"
      by (intro power_int_strict_increasing) simp_all
    then have char: "binary_round p emin v =
        of_int (rne (v / 2 powi (int p + k - int p + 1))) * 2 powi (int p + k - int p + 1)"
      using top assms(2) by (intro binary_round_char) simp_all
    have "even \<bar>m\<bar>"
      using True assms(3) by simp
    then have "even m"
      by simp
    then obtain h where h: "m = 2 * h"
      by (auto elim: evenE)
    have "v / 2 powi (k + 1) = of_int h"
      by (simp add: v_def h power_int_add)
    then have "of_int (rne (v / 2 powi (k + 1))) * 2 powi (k + 1) = of_int h * (2::real) powi (k + 1)"
      by (simp only: rne_of_int)
    also have "\<dots> = v"
      by (simp add: v_def h power_int_add)
    finally show ?thesis
      using char by (simp add: v_def)
  next
    case False
    then have small: "\<bar>m\<bar> < 2 ^ p"
      using assms(1) by simp
    obtain e where e: "emin \<le> e" "\<bar>v\<bar> < 2 powi (e + 1)" "e = emin \<or> 2 powi e \<le> \<bar>v\<bar>"
      by (rule binary_exponent)
    have d: "0 \<le> k - (e - int p + 1)"
    proof (cases "e = emin")
      case True
      then show ?thesis
        using assms(2) by simp
    next
      case False
      then have "2 powi e \<le> \<bar>v\<bar>"
        using e(3) by simp
      also have "\<bar>v\<bar> < of_int (2 ^ p) * 2 powi k"
      proof -
        have "(of_int \<bar>m\<bar> :: real) < of_int (2 ^ p)"
          using small by (simp only: of_int_less_iff)
        then show ?thesis
          unfolding absv by (rule mult_strict_right_mono) simp
      qed
      also have "of_int (2 ^ p) * 2 powi k = (2::real) powi (int p + k)"
        using two_powi_prod [of "int p" k] by (simp add: two_powi_nat)
      finally have lt: "(2::real) powi e < 2 powi (int p + k)" .
      have "e < int p + k"
      proof (rule ccontr)
        assume "\<not> e < int p + k"
        then have "(2::real) powi (int p + k) \<le> 2 powi e"
          by (intro power_int_increasing) simp_all
        with lt show False
          by simp
      qed
      then show ?thesis
        by simp
    qed
    have "v / 2 powi (e - int p + 1) = of_int m * (2 powi k / 2 powi (e - int p + 1))"
      by (simp add: v_def)
    also have "\<dots> = of_int m * 2 powi (k - (e - int p + 1))"
      by (simp only: two_powi_quot)
    finally have "of_int (rne (v / 2 powi (e - int p + 1))) = v / 2 powi (e - int p + 1)"
      using rne_scaled_int [OF d, of m] by simp
    then have "of_int (rne (v / 2 powi (e - int p + 1))) * 2 powi (e - int p + 1) = v"
      by simp
    then show ?thesis
      using binary_round_char [OF e, of p] by (simp add: v_def)
  qed
qed

lemma binary_round_form:
  obtains m k where "\<bar>m\<bar> \<le> 2 ^ p" and "emin - int p + 1 \<le> k"
    and "binary_round p emin x = of_int m * 2 powi k"
proof -
  obtain e where e: "emin \<le> e" "\<bar>x\<bar> < 2 powi (e + 1)" "e = emin \<or> 2 powi e \<le> \<bar>x\<bar>"
    by (rule binary_exponent)
  define u :: real where "u = 2 powi (e - int p + 1)"
  have u: "0 < u"
    by (simp add: u_def)
  have top: "2 powi (e + 1) / u = of_int (2 ^ p)"
    unfolding u_def two_powi_quot by (simp add: two_powi_nat)
  have "x \<le> 2 powi (e + 1)" "- (2 powi (e + 1)) \<le> x"
    using e(2) by simp_all
  then have "x / u \<le> 2 powi (e + 1) / u" "- (2 powi (e + 1) / u) \<le> x / u"
    using u by (simp_all add: field_simps)
  then have "x / u \<le> of_int (2 ^ p)" "of_int (- (2 ^ p)) \<le> x / u"
    unfolding top by simp_all
  then have "rne (x / u) \<le> rne (of_int (2 ^ p))" "rne (of_int (- (2 ^ p))) \<le> rne (x / u)"
    by (simp_all only: rne_mono)
  then have "\<bar>rne (x / u)\<bar> \<le> 2 ^ p"
    unfolding rne_of_int by simp
  moreover have "emin - int p + 1 \<le> e - int p + 1"
    using e(1) by simp
  moreover have "binary_round p emin x = of_int (rne (x / u)) * 2 powi (e - int p + 1)"
    unfolding u_def using e by (rule binary_round_char)
  ultimately show ?thesis
    by (rule that)
qed

lemma binary_round_idem:
  assumes "1 \<le> p"
  shows "binary_round p emin (binary_round p emin x) = binary_round p emin x"
proof -
  obtain m k where "\<bar>m\<bar> \<le> 2 ^ p" and "emin - int p + 1 \<le> k"
    and eq: "binary_round p emin x = of_int m * 2 powi k"
    by (rule binary_round_form)
  then have "binary_round p emin (of_int m * 2 powi k) = of_int m * 2 powi k"
    using assms by (intro binary_round_exact)
  then show ?thesis
    by (simp add: eq)
qed

lemma binary_round_of_int:
  assumes "\<bar>n\<bar> \<le> 2 ^ p" and "emin - int p + 1 \<le> 0" and "1 \<le> p"
  shows "binary_round p emin (of_int n) = of_int n"
  using binary_round_exact [OF assms] by simp

lemma binary_round_error:
  assumes "emin \<le> e" and "\<bar>x\<bar> < 2 powi (e + 1)" and "e = emin \<or> 2 powi e \<le> \<bar>x\<bar>"
  shows "\<bar>binary_round p emin x - x\<bar> \<le> 2 powi (e - int p + 1) / 2"
proof -
  define u :: real where "u = 2 powi (e - int p + 1)"
  have u: "0 < u"
    by (simp add: u_def)
  have "\<bar>of_int (rne (x / u)) - x / u\<bar> \<le> 1 / 2"
    using rne_bounds [of "x / u"] by (intro abs_leI) linarith+
  then have "\<bar>of_int (rne (x / u)) - x / u\<bar> * u \<le> 1 / 2 * u"
    using u by (intro mult_right_mono) simp_all
  moreover have "\<bar>of_int (rne (x / u)) - x / u\<bar> * u = \<bar>of_int (rne (x / u)) * u - x\<bar>"
  proof -
    have "(of_int (rne (x / u)) - x / u) * u = of_int (rne (x / u)) * u - x"
      using u by (simp add: left_diff_distrib)
    then have "\<bar>of_int (rne (x / u)) * u - x\<bar> = \<bar>of_int (rne (x / u)) - x / u\<bar> * \<bar>u\<bar>"
      by (simp only: abs_mult [symmetric])
    then show ?thesis
      using u by simp
  qed
  ultimately show ?thesis
    unfolding binary_round_char [OF assms] u_def by simp
qed

lemma binary_round_error_below:
  assumes "\<bar>x\<bar> < 2 powi k" and "emin < k"
  shows "\<bar>binary_round p emin x - x\<bar> \<le> 2 powi (k - int p) / 2"
proof -
  obtain e where e: "emin \<le> e" "\<bar>x\<bar> < 2 powi (e + 1)" "e = emin \<or> 2 powi e \<le> \<bar>x\<bar>"
    by (rule binary_exponent)
  have "e < k"
  proof (cases "e = emin")
    case True
    then show ?thesis
      using assms(2) by simp
  next
    case False
    then have lt: "(2::real) powi e < 2 powi k"
      using e(3) assms(1) by simp
    show ?thesis
    proof (rule ccontr)
      assume "\<not> e < k"
      then have "(2::real) powi k \<le> 2 powi e"
        by (intro power_int_increasing) simp_all
      with lt show False
        by simp
    qed
  qed
  then have "(2::real) powi (e - int p + 1) \<le> 2 powi (k - int p)"
    by (intro power_int_increasing) simp_all
  then show ?thesis
    using binary_round_error [OF e, of p] by simp
qed

lemma float32_zero [simp]: "float32 0 = 0"
  by (simp add: float32_def binary_round_def)

lemma float64_zero [simp]: "float64 0 = 0"
  by (simp add: float64_def binary_round_def)

lemma float32_mono: "x \<le> y \<Longrightarrow> float32 x \<le> float32 y"
  by (simp add: float32_def binary_round_mono)

lemma float64_mono: "x \<le> y \<Longrightarrow> float64 x \<le> float64 y"
  by (simp add: float64_def binary_round_mono)

lemma float32_nonneg: "0 \<le> x \<Longrightarrow> 0 \<le> float32 x"
  by (simp add: float32_def binary_round_nonneg)

lemma float64_nonneg: "0 \<le> x \<Longrightarrow> 0 \<le> float64 x"
  by (simp add: float64_def binary_round_nonneg)

lemma float32_idem [simp]: "float32 (float32 x) = float32 x"
  by (simp add: float32_def binary_round_idem)

lemma float32_of_int:
  assumes "\<bar>n\<bar> \<le> 16777216"
  shows "float32 (of_int n) = of_int n"
  unfolding float32_def using assms by (intro binary_round_of_int) simp_all

lemma float32_error:
  assumes "\<bar>x\<bar> < 2 powi k" and "- 126 < k"
  shows "\<bar>float32 x - x\<bar> \<le> 2 powi (k - 25)"
proof -
  have "(2::real) powi (k - 24) / 2 = 2 powi (k - 25)"
    using two_powi_quot [of "k - 24" 1] by simp
  then show ?thesis
    using binary_round_error_below [OF assms, of 24] by (simp add: float32_def)
qed

lemma float32_eval:
  assumes "2 powi e \<le> \<bar>x\<bar>" and "\<bar>x\<bar> < 2 powi (e + 1)" and "- 126 \<le> e"
  shows "float32 x = of_int (rne (x / 2 powi (e - 23))) * 2 powi (e - 23)"
  unfolding float32_def using binary_round_char [of "- 126" e x 24] assms by simp

lemma float64_eval:
  assumes "2 powi e \<le> \<bar>x\<bar>" and "\<bar>x\<bar> < 2 powi (e + 1)" and "- 1022 \<le> e"
  shows "float64 x = of_int (rne (x / 2 powi (e - 52))) * 2 powi (e - 52)"
  unfolding float64_def using binary_round_char [of "- 1022" e x 53] assms by simp

lemma float64_idem [simp]: "float64 (float64 x) = float64 x"
  by (simp add: float64_def binary_round_idem)

lemma f32_val_float32 [simp]: "float32 (f32_val a) = f32_val a"
  using f32_val [of a] by simp

lemma f32_val_to_f32 [simp]: "f32_val (to_f32 x) = float32 x"
  by (simp add: to_f32_def Abs_f32_inverse)

lemma to_f32_f32_val [simp]: "to_f32 (f32_val a) = a"
  by (simp add: to_f32_def f32_val_inverse)

lemma fmul_nonneg: "0 \<le> a \<Longrightarrow> 0 \<le> b \<Longrightarrow> 0 \<le> fmul a b"
  by (simp add: fmul_def float32_nonneg)

lemma float32_add_nonneg:
  assumes "0 \<le> d"
  shows "f32_val a \<le> float32 (f32_val a + d)"
proof -
  have "float32 (f32_val a) \<le> float32 (f32_val a + d)"
    using assms by (intro float32_mono) simp
  then show ?thesis
    by simp
qed

text \<open>The roundings of the sample values used below.\<close>

lemma float32_numerals:
  "float32 2 = 2" "float32 64 = 64" "float32 700 = 700" "float32 2000 = 2000"
  "float32 10 = 10" "float32 100 = 100" "float32 1000 = 1000" "float32 70000 = 70000"
  using float32_of_int [of 2] float32_of_int [of 64] float32_of_int [of 700]
    float32_of_int [of 2000] float32_of_int [of 10] float32_of_int [of 100]
    float32_of_int [of 1000] float32_of_int [of 70000]
  by simp_all

lemma float32_1_2: "float32 1.2 = 10066330 / 8388608"
  using float32_eval [of 0 "1.2"] by (simp add: rne_def)

lemma hours_5000: "float32 (float64 (5000 / 3600000)) = 11930465 / 8589934592"
proof -
  have a: "float64 (5000 / 3600000) = 6405119470038039 / 4611686018427387904"
    using float64_eval [of "- 10" "5000 / 3600000"] by (simp add: rne_def)
  have b: "float32 (6405119470038039 / 4611686018427387904) = 11930465 / 8589934592"
    using float32_eval [of "- 10" "6405119470038039 / 4611686018427387904"]
    by (simp add: rne_def)
  show ?thesis
    by (simp only: a b)
qed

lemma delta_1_2_kw_5000_ms:
  "fmul 1.2 (float32 (float64 (5000 / 3600000))) = 14316559 / 8589934592"
proof -
  have a: "float32 (11930465 / 8589934592) = 11930465 / 8589934592"
    using float32_idem [of "float64 (5000 / 3600000)"] by (simp only: hours_5000)
  have b: "float32 (10066330 / 8388608 * (11930465 / 8589934592)) = 14316559 / 8589934592"
    using float32_eval [of "- 10" "10066330 / 8388608 * (11930465 / 8589934592)"]
    by (simp add: rne_def)
  show ?thesis
    by (simp only: fmul_def hours_5000 float32_1_2 a b)
qed

subsection \<open>Runs\<close>

lemma run_append: "run (es1 @ es2) s = run es2 (run es1 s)"
  by (induction es1 arbitrary: s) simp_all

lemmas step_defs = loop_def in_calibration_def calibration_sample_def finish_calibration_def
  slow_due_def slow_tick_def fast_due_def fast_tick_def pollModbusDevices_def
  updateModbusRegisters_def updateSCADAData_def sendInterval_def gridVoltage_def Let_def

subsection \<open>The energy accumulator\<close>

lemma updateSCADAData_energy:
  "total_energy_kwh (scadaData (updateSCADAData ti s)) =
     (if last_energy_update s \<noteq> 0
      then to_f32 (f32_val (accumulated_energy s) +
             fmul (ac_power_kw (scadaData s))
               (float32 (float64 (real (unat (t_energy ti - last_energy_update s)) / 3600000))))
      else total_energy_kwh (scadaData s))"
  "accumulated_energy (updateSCADAData ti s) =
     (if last_energy_update s \<noteq> 0
      then to_f32 (f32_val (accumulated_energy s) +
             fmul (ac_power_kw (scadaData s))
               (float32 (float64 (real (unat (t_energy ti - last_energy_update s)) / 3600000))))
      else accumulated_energy s)"
  "ac_power_kw (scadaData (updateSCADAData ti s)) = ac_power_kw (scadaData s)"
  "last_energy_update (updateSCADAData ti s) = t_stamp ti"
  by (simp_all add: updateSCADAData_def Let_def word_gt_0)

lemma finish_calibration_energy:
  "accumulated_energy (finish_calibration s) = accumulated_energy s"
  "last_energy_update (finish_calibration s) = last_energy_update s"
  "scadaData (finish_calibration s) = scadaData s"
  by (simp_all add: finish_calibration_def)

lemma fast_tick_energy:
  "accumulated_energy (fast_tick e s) = accumulated_energy s"
  "last_energy_update (fast_tick e s) = last_energy_update s"
  "total_energy_kwh (scadaData (fast_tick e s)) = total_energy_kwh (scadaData s)"
  by (simp_all add: fast_tick_def Let_def)

lemma slow_tick_energy:
  "accumulated_energy (slow_tick e s) = accumulated_energy (updateSCADAData (tick e) s)"
  "last_energy_update (slow_tick e s) = t_stamp (tick e)"
  "total_energy_kwh (scadaData (slow_tick e s)) =
     total_energy_kwh (scadaData (updateSCADAData (tick e) s))"
  "ac_power_kw (scadaData (slow_tick e s)) = ac_power_kw (scadaData s)"
  by (simp_all add: slow_tick_def pollModbusDevices_def updateModbusRegisters_def Let_def
      updateSCADAData_energy)

lemma loop_slow_energy:
  assumes "\<not> in_calibration e s" and "slow_due e (finish_calibration s)"
  shows "accumulated_energy (loop e s) = accumulated_energy (updateSCADAData (tick e) s)"
    and "total_energy_kwh (scadaData (loop e s)) =
         total_energy_kwh (scadaData (updateSCADAData (tick e) s))"
    and "last_energy_update (loop e s) = t_stamp (tick e)"
  using assms
  by (simp_all add: loop_def Let_def fast_tick_energy slow_tick_energy updateSCADAData_energy
      finish_calibration_energy)

lemma scenario_tolerance:
  assumes "0 \<le> T" and "T \<le> 15.99"
  shows "\<bar>float32 (T + 14316559 / 8589934592) - (T + 0.001667)\<bar> \<le> 1 / 1000000"
proof -
  define y where "y = float32 (T + 14316559 / 8589934592)"
  have "\<bar>T + 14316559 / 8589934592\<bar> < 2 powi 4"
    using assms by simp
  then have "\<bar>float32 (T + 14316559 / 8589934592) - (T + 14316559 / 8589934592)\<bar> \<le> 2 powi (4 - 25)"
    by (rule float32_error) simp
  then have "\<bar>y - (T + 14316559 / 8589934592)\<bar> \<le> 1 / 2097152"
    by (simp add: y_def)
  then have "\<bar>y - (T + 1667 / 1000000)\<bar> \<le> 1 / 1000000"
    by linarith
  then show ?thesis
    by (simp add: y_def)
qed

lemma loop_quiet_energy:
  assumes "\<not> refreshes e s"
  shows "last_energy_update (loop e s) = last_energy_update s"
    and "total_energy_kwh (scadaData (loop e s)) = total_energy_kwh (scadaData s)"
    and "accumulated_energy (loop e s) = accumulated_energy s"
  using assms
  by (auto simp add: loop_def refreshes_def Let_def calibration_sample_def fast_tick_energy
      finish_calibration_energy)


text \<open>
  The tick of the scenario, on a total of \<open>T\<close> kWh: 1.2 kW, 5000 ms after the last
  energy stamp. An iteration at 121 s, a second after the last slow tick, runs none.
\<close>

lemma metered_tick:
  "total_energy_kwh (scadaData (metered T kw)) = accumulated_energy (metered T kw)"
  "\<not> in_calibration (at_time 125001) (metered T kw)"
  "slow_due (at_time 125001) (finish_calibration (metered T kw))"
  "last_energy_update (metered T kw) \<noteq> 0"
  "ac_power_kw (scadaData (metered T kw)) = kw"
  "unat (t_energy (tick (at_time 125001)) - last_energy_update (metered T kw)) = 5000"
  "f32_val (total_energy_kwh (scadaData (metered T kw))) = float32 T"
  by (simp_all add: metered_def at_time_def in_calibration_def slow_due_def
      finish_calibration_def)

lemma metered_refreshes:
  "refreshes (at_time 125001) (metered T kw)"
  "\<not> refreshes (at_time 121000) (metered T kw)"
  "last_energy_update (metered T kw) = 120001"
  by (simp_all add: refreshes_def metered_def at_time_def in_calibration_def slow_due_def
      finish_calibration_def)

lemma metered_tick_total:
  "f32_val (total_energy_kwh (scadaData (loop (at_time 125001) (metered T kw)))) =
     float32 (float32 T + fmul kw (float32 (float64 (5000 / 3600000))))"
  using metered_tick [of T kw]
  by (simp add: loop_slow_energy updateSCADAData_energy)


lemma tick_at_64_kwh:
  "f32_val (total_energy_kwh (scadaData (loop (at_time 125001) (metered 64 1.2)))) =
     8388826 / 131072"
proof -
  have "float32 (64 + 14316559 / 8589934592) = 8388826 / 131072"
    using float32_eval [of 6 "64 + 14316559 / 8589934592"] by (simp add: rne_def)
  then show ?thesis
    by (simp only: metered_tick_total float32_numerals delta_1_2_kw_5000_ms)
qed


lemma slow_tick_energy_ok: "energy_ok s \<Longrightarrow> energy_ok (slow_tick e s)"
  by (simp add: energy_ok_def slow_tick_energy updateSCADAData_energy)

lemma slow_tick_energy_mono:
  assumes "energy_ok s"
  shows "f32_val (total_energy_kwh (scadaData s)) \<le>
         f32_val (total_energy_kwh (scadaData (slow_tick e s)))"
proof (cases "last_energy_update s = 0")
  case True
  then show ?thesis
    by (simp add: slow_tick_energy updateSCADAData_energy)
next
  case False
  have "0 \<le> float32 (float64 (real (unat (t_energy (tick e) - last_energy_update s)) / 3600000))"
    by (intro float32_nonneg float64_nonneg divide_nonneg_nonneg of_nat_0_le_iff) simp
  then have "0 \<le> fmul (ac_power_kw (scadaData s))
      (float32 (float64 (real (unat (t_energy (tick e) - last_energy_update s)) / 3600000)))"
    using assms by (intro fmul_nonneg) (simp_all add: energy_ok_def)
  then have "f32_val (accumulated_energy s) \<le>
      float32 (f32_val (accumulated_energy s) +
        fmul (ac_power_kw (scadaData s))
          (float32 (float64 (real (unat (t_energy (tick e) - last_energy_update s)) / 3600000))))"
    by (rule float32_add_nonneg)
  then show ?thesis
    using assms False by (simp add: energy_ok_def slow_tick_energy updateSCADAData_energy)
qed

lemma fast_tick_energy_ok: "energy_ok s \<Longrightarrow> energy_ok (fast_tick e s)"
  by (simp add: energy_ok_def fast_tick_def Let_def gridVoltage_def)

lemma calibration_energy_ok:
  "energy_ok s \<Longrightarrow> energy_ok (calibration_sample e s)"
  "energy_ok s \<Longrightarrow> energy_ok (finish_calibration s)"
  by (simp_all add: energy_ok_def calibration_sample_def finish_calibration_def)

lemma calibration_total:
  "total_energy_kwh (scadaData (calibration_sample e s)) = total_energy_kwh (scadaData s)"
  "total_energy_kwh (scadaData (finish_calibration s)) = total_energy_kwh (scadaData s)"
  by (simp_all add: calibration_sample_def finish_calibration_def)

lemma loop_energy_ok: "energy_ok s \<Longrightarrow> energy_ok (loop e s)"
  by (simp add: loop_def Let_def calibration_energy_ok slow_tick_energy_ok fast_tick_energy_ok)

lemma loop_energy_mono:
  assumes "energy_ok s"
  shows "f32_val (total_energy_kwh (scadaData s)) \<le>
         f32_val (total_energy_kwh (scadaData (loop e s)))"
proof -
  have "f32_val (total_energy_kwh (scadaData (finish_calibration s))) \<le>
        f32_val (total_energy_kwh (scadaData (slow_tick e (finish_calibration s))))"
    using assms by (intro slow_tick_energy_mono calibration_energy_ok)
  then show ?thesis
    by (simp add: loop_def Let_def calibration_total fast_tick_energy)
qed

lemma run_energy_ok: "energy_ok s \<Longrightarrow> energy_ok (run es s)"
  by (induction es arbitrary: s) (simp_all add: loop_energy_ok)

lemma setup_energy_ok: "energy_ok (setup_state t0)"
  by (simp add: energy_ok_def setup_state_def)

lemma reachable_energy_ok: "energy_ok (run es (setup_state t0))"
  by (intro run_energy_ok setup_energy_ok)

lemma run_energy_mono:
  "energy_ok s \<Longrightarrow>
   f32_val (total_energy_kwh (scadaData s)) \<le> f32_val (total_energy_kwh (scadaData (run es s)))"
proof (induction es arbitrary: s)
  case Nil
  then show ?case by simp
next
  case (Cons e es)
  have "f32_val (total_energy_kwh (scadaData s)) \<le>
        f32_val (total_energy_kwh (scadaData (loop e s)))"
    using Cons.prems by (rule loop_energy_mono)
  also have "\<dots> \<le> f32_val (total_energy_kwh (scadaData (run es (loop e s))))"
    using Cons.prems by (intro Cons.IH loop_energy_ok)
  finally show ?case by simp
qed

text \<open>
  C2. From a state whose power is not negative (and whose total is the accumulator, as
  at boot), the energy total never decreases along any sequence of loop iterations,
  whatever the clock, the sensor and the random draws give: each later state's total is
  at least each earlier one's, and so is the accumulator behind it. The fast tick keeps
  the power non-negative by its clamps, so the premise on the power is needed for the
  starting state only. The \<^verbatim>\<open>float\<close> sum of a total and a non-negative term is not
  below the total, as rounding is monotone and keeps a \<^verbatim>\<open>float\<close> as it is.
\<close>

theorem total_energy_monotone:
  assumes "0 \<le> ac_power_kw (scadaData s)"
    and "total_energy_kwh (scadaData s) = accumulated_energy s"
  shows "f32_val (total_energy_kwh (scadaData (run es1 s))) \<le>
         f32_val (total_energy_kwh (scadaData (run (es1 @ es2) s))) \<and>
         f32_val (accumulated_energy (run es1 s)) \<le>
         f32_val (accumulated_energy (run (es1 @ es2) s))"
proof -
  have before: "energy_ok (run es1 s)"
    using assms by (intro run_energy_ok) (simp add: energy_ok_def)
  then have after: "energy_ok (run (es1 @ es2) s)"
    by (simp add: run_append run_energy_ok)
  have "f32_val (total_energy_kwh (scadaData (run es1 s))) \<le>
        f32_val (total_energy_kwh (scadaData (run (es1 @ es2) s)))"
    using before by (simp add: run_append run_energy_mono)
  then show ?thesis
    using before after by (simp add: energy_ok_def)
qed

theorem total_energy_monotone_witness:
  "0 \<le> ac_power_kw (scadaData (setup_state 0)) \<and>
   total_energy_kwh (scadaData (setup_state 0)) = accumulated_energy (setup_state 0) \<and>
   f32_val (total_energy_kwh (scadaData
     (run [at_time 2000, (at_time 120000)\<lparr>raw := 5\<rparr>] (setup_state 0)))) \<le>
   f32_val (total_energy_kwh (scadaData
     (run ([at_time 2000, (at_time 120000)\<lparr>raw := 5\<rparr>] @ [at_time 126000]) (setup_state 0))))"
  using total_energy_monotone [of "setup_state 0"
      "[at_time 2000, (at_time 120000)\<lparr>raw := 5\<rparr>]" "[at_time 126000]"]
  by (simp add: setup_state_def)

text \<open>
  The run of the witness: the first slow tick (at 120 s, no previous stamp) adds
  nothing, the second adds 1.1 kW for 6 s, which is 0.0018333 kWh as a \<^verbatim>\<open>float\<close>.
\<close>

lemma delta_1_1_kw_6000_ms:
  "fmul (11 / 10) (float32 (float64 (6000 / 3600000))) = 7874107 / 4294967296"
proof -
  have a: "float64 (6000 / 3600000) = 7686143364045647 / 4611686018427387904"
    using float64_eval [of "- 10" "6000 / 3600000"] by (simp add: rne_def)
  have b: "float32 (7686143364045647 / 4611686018427387904) = 7158279 / 4294967296"
    using float32_eval [of "- 10" "7686143364045647 / 4611686018427387904"]
    by (simp add: rne_def)
  have c: "float32 (7158279 / 4294967296) = 7158279 / 4294967296"
    using float32_idem [of "7686143364045647 / 4611686018427387904"] by (simp only: b)
  have d: "float32 (11 / 10) = 9227469 / 8388608"
    using float32_eval [of 0 "11 / 10"] by (simp add: rne_def)
  have e: "float32 (9227469 / 8388608 * (7158279 / 4294967296)) = 7874107 / 4294967296"
    using float32_eval [of "- 10" "9227469 / 8388608 * (7158279 / 4294967296)"]
    by (simp add: rne_def)
  show ?thesis
    by (simp only: fmul_def a b c d e)
qed

lemma sample_run_energy:
  "f32_val (total_energy_kwh (scadaData
     (run [at_time 2000, (at_time 120000)\<lparr>raw := 5\<rparr>] (setup_state 0)))) = 0"
  "f32_val (total_energy_kwh (scadaData
     (run [at_time 2000, (at_time 120000)\<lparr>raw := 5\<rparr>, at_time 126000] (setup_state 0)))) =
     7874107 / 4294967296"
proof -
  show "f32_val (total_energy_kwh (scadaData
     (run [at_time 2000, (at_time 120000)\<lparr>raw := 5\<rparr>] (setup_state 0)))) = 0"
    by (simp add: step_defs at_time_def setup_state_def)
  have "f32_val (total_energy_kwh (scadaData
     (run [at_time 2000, (at_time 120000)\<lparr>raw := 5\<rparr>, at_time 126000] (setup_state 0)))) =
     float32 (fmul (11 / 10) (float32 (float64 (6000 / 3600000))))"
    by (simp add: step_defs at_time_def setup_state_def)
  also have "\<dots> = 7874107 / 4294967296"
    using float32_idem [of "float32 (11 / 10) * float32 (float32 (float64 (6000 / 3600000)))"]
    unfolding fmul_def [symmetric] by (simp only: delta_1_1_kw_6000_ms)
  finally show "f32_val (total_energy_kwh (scadaData
     (run [at_time 2000, (at_time 120000)\<lparr>raw := 5\<rparr>, at_time 126000] (setup_state 0)))) =
     7874107 / 4294967296" .
qed

subsection \<open>Noise thresholds of the fast tick\<close>

text \<open>
  C3. In the fast tick, a corrected current \<open>raw - noiseFloor\<close> below 0.01 A is
  reported as exactly 0 (and so is the power); a power \<open>current * 220\<close> below 1 W is
  reported as exactly 0; a power of 1 W or more is reported as it is, in kW.
\<close>

theorem noise_threshold_zeroes:
  "(raw e - noiseFloor s < 0.01 \<longrightarrow>
      current_rms (scadaData (fast_tick e s)) = 0 \<and>
      ac_power_kw (scadaData (fast_tick e s)) = 0) \<and>
   (current_rms (scadaData (fast_tick e s)) * gridVoltage < 1 \<longrightarrow>
      ac_power_kw (scadaData (fast_tick e s)) = 0) \<and>
   (1 \<le> current_rms (scadaData (fast_tick e s)) * gridVoltage \<longrightarrow>
      ac_power_kw (scadaData (fast_tick e s)) * 1000 =
        current_rms (scadaData (fast_tick e s)) * gridVoltage)"
  by (simp add: fast_tick_def gridVoltage_def Let_def)

theorem noise_threshold_zeroes_witness:
  "current_rms (scadaData (fast_tick ((at_time 121000)\<lparr>raw := 0.045\<rparr>)
       ((setup_state 0)\<lparr>noiseFloor := 0.04\<rparr>))) = 0 \<and>
   ac_power_kw (scadaData (fast_tick ((at_time 121000)\<lparr>raw := 0.045\<rparr>)
       ((setup_state 0)\<lparr>noiseFloor := 0.04\<rparr>))) = 0 \<and>
   ac_power_kw (scadaData (fast_tick ((at_time 121000)\<lparr>raw := 1.04\<rparr>)
       ((setup_state 0)\<lparr>noiseFloor := 0.04\<rparr>))) * 1000 = 220"
  using noise_threshold_zeroes [of "(at_time 121000)\<lparr>raw := 0.045\<rparr>"
      "(setup_state 0)\<lparr>noiseFloor := 0.04\<rparr>"]
    noise_threshold_zeroes [of "(at_time 121000)\<lparr>raw := 1.04\<rparr>"
      "(setup_state 0)\<lparr>noiseFloor := 0.04\<rparr>"]
  by (simp add: at_time_def setup_state_def fast_tick_def gridVoltage_def Let_def)

text \<open>
  C4, as the spec states it, fails: with a raw reading of 0.05 A and a noise floor of
  0.04 A the corrected current is 0.01 A, the test \<^verbatim>\<open>Irms < 0.01\<close> is false, and the
  reported current is 0.01 A, not 0.
\<close>

theorem boundary_not_zeroed_counterexample:
  "current_rms (scadaData (fast_tick ((at_time 121000)\<lparr>raw := 0.05\<rparr>)
       ((setup_state 0)\<lparr>noiseFloor := 0.04\<rparr>))) \<noteq> 0"
  by (simp add: fast_tick_def at_time_def setup_state_def Let_def)

text \<open>
  C4, amended. The clamp is strict: a corrected current of 0.01 A or more is reported
  unchanged, so the reading 0.05 A over a floor of 0.04 A is reported as 0.01 A.
\<close>

theorem boundary_reading_kept:
  "0.01 \<le> raw e - noiseFloor s \<Longrightarrow>
   current_rms (scadaData (fast_tick e s)) = raw e - noiseFloor s"
  by (simp add: fast_tick_def Let_def)

theorem boundary_reading_kept_witness:
  "current_rms (scadaData (fast_tick ((at_time 121000)\<lparr>raw := 0.05\<rparr>)
       ((setup_state 0)\<lparr>noiseFloor := 0.04\<rparr>))) = 0.01"
  using boundary_reading_kept [of "(at_time 121000)\<lparr>raw := 0.05\<rparr>"
      "(setup_state 0)\<lparr>noiseFloor := 0.04\<rparr>"]
  by (simp add: at_time_def setup_state_def)

subsection \<open>Calibration\<close>

lemma slow_tick_calibration:
  "calibrated (slow_tick e s) = calibrated s"
  "noiseFloor (slow_tick e s) = noiseFloor s"
  "calibrationStart (slow_tick e s) = calibrationStart s"
  by (simp_all add: slow_tick_def pollModbusDevices_def updateModbusRegisters_def
      updateSCADAData_def Let_def)

lemma fast_tick_calibration:
  "calibrated (fast_tick e s) = calibrated s"
  "noiseFloor (fast_tick e s) = noiseFloor s"
  "calibrationStart (fast_tick e s) = calibrationStart s"
  by (simp_all add: fast_tick_def Let_def)

lemma finish_calibration_fields:
  "calibrated (finish_calibration s)"
  "noiseFloor (finish_calibration s) =
     (if calibrated s then noiseFloor s
      else calibrationSum s / real_of_int (calibrationReadings s))"
  "calibrationStart (finish_calibration s) = calibrationStart s"
  by (simp_all add: finish_calibration_def)

lemma loop_calibration:
  "calibrated (loop e s) \<longleftrightarrow> \<not> in_calibration e s"
  "noiseFloor (loop e s) =
     (if calibrated s \<or> in_calibration e s then noiseFloor s
      else calibrationSum s / real_of_int (calibrationReadings s))"
  "calibrationStart (loop e s) = calibrationStart s"
  by (simp_all add: loop_def Let_def slow_tick_calibration fast_tick_calibration
      finish_calibration_fields calibration_sample_def in_calibration_def)

lemma loop_calibrated_keeps:
  "calibrated s \<Longrightarrow> calibrated (loop e s) \<and> noiseFloor (loop e s) = noiseFloor s"
  by (simp add: loop_calibration in_calibration_def)

lemma run_calibrated_keeps:
  "calibrated s \<Longrightarrow> calibrated (run es s) \<and> noiseFloor (run es s) = noiseFloor s"
  by (induction es arbitrary: s) (simp_all add: loop_calibrated_keeps)

lemma run_calibrationStart: "calibrationStart (run es s) = calibrationStart s"
  by (induction es arbitrary: s) (simp_all add: loop_calibration)

lemma loop_uncalibrated:
  assumes "\<not> calibrated (loop e s)"
  shows "\<not> calibrated s \<and> in_calibration e s \<and> loop e s = calibration_sample e s"
proof -
  have "in_calibration e s"
    using assms by (simp add: loop_calibration)
  then show ?thesis
    by (simp add: loop_def in_calibration_def)
qed

lemma run_uncalibrated_samples:
  "\<not> calibrated (run es s) \<Longrightarrow>
   calibrationReadings (run es s) = calibrationReadings s + int (length es) \<and>
   calibrationSum (run es s) = calibrationSum s + sum_list (map cal_raw es)"
proof (induction es arbitrary: s)
  case Nil
  then show ?case by simp
next
  case (Cons e es)
  from Cons.prems have later: "\<not> calibrated (run es (loop e s))"
    by simp
  then have "\<not> calibrated (loop e s)"
    using run_calibrated_keeps [of "loop e s" es] by blast
  then have step: "loop e s = calibration_sample e s"
    by (rule loop_uncalibrated [THEN conjunct2, THEN conjunct2])
  have "calibrationReadings (loop e s) = calibrationReadings s + 1"
    and "calibrationSum (loop e s) = calibrationSum s + cal_raw e"
    by (simp_all add: step calibration_sample_def)
  with Cons.IH [OF later] show ?case
    by simp
qed

lemma loop_calibrates:
  assumes "\<not> calibrated s"
  shows "calibrated (loop e s) \<longleftrightarrow> 120000 \<le> t_cal e - calibrationStart s"
    and "calibrated (loop e s) \<Longrightarrow>
         noiseFloor (loop e s) = calibrationSum s / real_of_int (calibrationReadings s)"
  using assms by (auto simp add: loop_calibration in_calibration_def not_less)

text \<open>
  C5. Along any run from boot: \<open>calibrated\<close> turns true in the first iteration that reads
  the clock 120 s or more after \<open>calibrationStart\<close>, and in no earlier one; at that
  moment \<open>noiseFloor\<close> is set to \<open>calibrationSum / calibrationReadings\<close>, the mean of
  the samples of the iterations before; once \<open>calibrated\<close> is true it stays true and
  \<open>noiseFloor\<close> keeps its value through every later iteration, so there is one such
  moment only. The sketch does not test the sample count: it is positive because the
  first iteration reads the clock inside the window (\<^verbatim>\<open>setup()\<close> waits 2 s only after
  taking \<open>calibrationStart\<close>), which is the premise of that part.
\<close>

theorem calibration_once:
  "(\<not> calibrated (run es1 (setup_state t0)) \<and> calibrated (loop e (run es1 (setup_state t0))) \<longrightarrow>
      120000 \<le> t_cal e - t0 \<and>
      calibrationReadings (run es1 (setup_state t0)) = int (length es1) \<and>
      calibrationSum (run es1 (setup_state t0)) = sum_list (map cal_raw es1) \<and>
      noiseFloor (loop e (run es1 (setup_state t0))) =
        calibrationSum (run es1 (setup_state t0)) /
        real_of_int (calibrationReadings (run es1 (setup_state t0)))) \<and>
   (t_cal (hd (es1 @ [e])) - t0 < 120000 \<and>
    \<not> calibrated (run es1 (setup_state t0)) \<and> calibrated (loop e (run es1 (setup_state t0))) \<longrightarrow>
      0 < calibrationReadings (run es1 (setup_state t0))) \<and>
   (\<not> calibrated (run es1 (setup_state t0)) \<and> 120000 \<le> t_cal e - t0 \<longrightarrow>
      calibrated (loop e (run es1 (setup_state t0)))) \<and>
   (calibrated (loop e (run es1 (setup_state t0))) \<longrightarrow>
      calibrated (run es2 (loop e (run es1 (setup_state t0)))) \<and>
      noiseFloor (run es2 (loop e (run es1 (setup_state t0)))) =
        noiseFloor (loop e (run es1 (setup_state t0))))"
proof -
  define s where "s = run es1 (setup_state t0)"
  have start: "calibrationStart s = t0"
    by (simp add: s_def run_calibrationStart setup_state_def)
  have samples: "calibrationReadings s = int (length es1) \<and>
                 calibrationSum s = sum_list (map cal_raw es1)" if "\<not> calibrated s"
    using run_uncalibrated_samples [of es1 "setup_state t0"] that
    by (simp add: s_def setup_state_def)
  have window: "120000 \<le> t_cal e - t0" if "\<not> calibrated s" "calibrated (loop e s)"
    using loop_calibrates(1) [of s e] that start by simp
  have floor: "noiseFloor (loop e s) = calibrationSum s / real_of_int (calibrationReadings s)"
    if "\<not> calibrated s" "calibrated (loop e s)"
    using loop_calibrates(2) [of s e] that by simp
  have positive: "0 < calibrationReadings s"
    if first: "t_cal (hd (es1 @ [e])) - t0 < 120000"
      and "\<not> calibrated s" "calibrated (loop e s)"
  proof (cases es1)
    case Nil
    then have "s = setup_state t0" "t_cal e - t0 < 120000"
      using first by (simp_all add: s_def)
    then have "\<not> calibrated (loop e s)"
      by (simp add: loop_def in_calibration_def calibration_sample_def setup_state_def)
    with that show ?thesis by simp
  next
    case (Cons a as)
    then show ?thesis
      using samples that by simp
  qed
  have fires: "calibrated (loop e s)" if "\<not> calibrated s" "120000 \<le> t_cal e - t0"
    using loop_calibrates(1) [of s e] that start by simp
  have keeps: "calibrated (run es2 (loop e s)) \<and>
               noiseFloor (run es2 (loop e s)) = noiseFloor (loop e s)"
    if "calibrated (loop e s)"
    using that by (rule run_calibrated_keeps)
  show ?thesis
    unfolding s_def [symmetric]
  proof (intro conjI impI)
    assume "\<not> calibrated s \<and> calibrated (loop e s)"
    then show "120000 \<le> t_cal e - t0"
      and "calibrationReadings s = int (length es1)"
      and "calibrationSum s = sum_list (map cal_raw es1)"
      and "noiseFloor (loop e s) = calibrationSum s / real_of_int (calibrationReadings s)"
      using samples window floor by simp_all
  next
    assume "t_cal (hd (es1 @ [e])) - t0 < 120000 \<and>
            \<not> calibrated s \<and> calibrated (loop e s)"
    then show "0 < calibrationReadings s"
      using positive by simp
  next
    assume "\<not> calibrated s \<and> 120000 \<le> t_cal e - t0"
    then show "calibrated (loop e s)"
      using fires by simp
  next
    assume "calibrated (loop e s)"
    then show "calibrated (run es2 (loop e s))"
      and "noiseFloor (run es2 (loop e s)) = noiseFloor (loop e s)"
      using keeps by simp_all
  qed
qed

theorem calibration_once_witness:
  "t_cal (hd ([(at_time 2000)\<lparr>cal_raw := 0.04\<rparr>, (at_time 60000)\<lparr>cal_raw := 0.06\<rparr>] @ [at_time 120000])) - 0 < 120000 \<and>
   \<not> calibrated (run [(at_time 2000)\<lparr>cal_raw := 0.04\<rparr>, (at_time 60000)\<lparr>cal_raw := 0.06\<rparr>] (setup_state 0)) \<and>
   calibrated (loop (at_time 120000) (run [(at_time 2000)\<lparr>cal_raw := 0.04\<rparr>, (at_time 60000)\<lparr>cal_raw := 0.06\<rparr>] (setup_state 0))) \<and>
   calibrationReadings (run [(at_time 2000)\<lparr>cal_raw := 0.04\<rparr>, (at_time 60000)\<lparr>cal_raw := 0.06\<rparr>] (setup_state 0)) = 2 \<and>
   noiseFloor (loop (at_time 120000) (run [(at_time 2000)\<lparr>cal_raw := 0.04\<rparr>, (at_time 60000)\<lparr>cal_raw := 0.06\<rparr>] (setup_state 0))) = 0.05 \<and>
   noiseFloor (run [(at_time 126000)\<lparr>cal_raw := 7\<rparr>] (loop (at_time 120000) (run [(at_time 2000)\<lparr>cal_raw := 0.04\<rparr>, (at_time 60000)\<lparr>cal_raw := 0.06\<rparr>] (setup_state 0)))) = 0.05"
proof -
  have a: "\<not> calibrated (run [(at_time 2000)\<lparr>cal_raw := 0.04\<rparr>, (at_time 60000)\<lparr>cal_raw := 0.06\<rparr>] (setup_state 0))"
    by (simp add: step_defs at_time_def setup_state_def)
  have b: "(120000 :: 32 word) \<le> t_cal (at_time 120000) - 0"
    by (simp add: at_time_def)
  have c: "calibrationSum (run [(at_time 2000)\<lparr>cal_raw := 0.04\<rparr>, (at_time 60000)\<lparr>cal_raw := 0.06\<rparr>] (setup_state 0)) = 0.1"
    by (simp add: step_defs at_time_def setup_state_def)
  have d: "t_cal (hd ([(at_time 2000)\<lparr>cal_raw := 0.04\<rparr>, (at_time 60000)\<lparr>cal_raw := 0.06\<rparr>] @ [at_time 120000])) - 0 < (120000 :: 32 word)"
    by (simp add: at_time_def)
  show ?thesis
    using a b c d calibration_once [of "[(at_time 2000)\<lparr>cal_raw := 0.04\<rparr>, (at_time 60000)\<lparr>cal_raw := 0.06\<rparr>]" 0 "at_time 120000" "[(at_time 126000)\<lparr>cal_raw := 7\<rparr>]"]
    by simp
qed

subsection \<open>Simulated irradiance\<close>

lemma time_of_day_no_wrap:
  fixes now :: millis
  shows "unat (((now div 1000) + (8 * 3600)) mod 86400) = (unat now div 1000 + 28800) mod 86400"
proof -
  have "unat now < 2 ^ 32"
    using unsigned_less [of now, where ?'a = nat] by simp
  then have small: "unat now div 1000 + 28800 < 4294967296"
    by simp
  have "unat ((now div 1000) + 28800) = (unat now div 1000 + 28800) mod 4294967296"
    by (simp add: unat_word_ariths unat_div mod_add_left_eq)
  also have "\<dots> = unat now div 1000 + 28800"
    using small by simp
  finally show ?thesis
    by (simp add: unat_mod)
qed

lemma simulateIrradiance_spec:
  "simulateIrradiance now r = irradiance_spec (8 * 3600) (unat now) (real_of_int r)"
  unfolding simulateIrradiance_def irradiance_spec_def hourOfDay_spec_def Let_def
    time_of_day_no_wrap
  by simp

lemma jitter_bound:
  assumes "- 100 \<le> r \<and> r < 100"
  shows "\<bar>real_of_int r\<bar> \<le> 100"
proof -
  have "\<bar>r\<bar> \<le> 100"
    using assms by arith
  then have "real_of_int \<bar>r\<bar> \<le> real_of_int 100"
    by (simp only: of_int_le_iff)
  then show ?thesis
    by simp
qed

text \<open>
  C6. For every timestamp and every jitter draw, \<^verbatim>\<open>simulateIrradiance\<close> is the spec's
  model with the offset of 8 h: its 32-bit arithmetic never wraps. The draw of
  \<^verbatim>\<open>random(-100, 100)\<close> is within 100 of zero; the irradiance is exactly 0 before 6 h
  and after 18 h; at 12 h it is within 100 of 1200.
\<close>

theorem irradiance_refines_spec:
  "simulateIrradiance now r = irradiance_spec (8 * 3600) (unat now) (real_of_int r) \<and>
   (- 100 \<le> r \<and> r < 100 \<longrightarrow> \<bar>real_of_int r\<bar> \<le> 100) \<and>
   (hourOfDay_spec (8 * 3600) (unat now) < 6 \<or> hourOfDay_spec (8 * 3600) (unat now) > 18 \<longrightarrow>
      simulateIrradiance now r = 0) \<and>
   (- 100 \<le> r \<and> r < 100 \<and> hourOfDay_spec (8 * 3600) (unat now) = 12 \<longrightarrow>
      \<bar>simulateIrradiance now r - 1200\<bar> \<le> 100)"
proof (intro conjI impI)
  show eq: "simulateIrradiance now r = irradiance_spec (8 * 3600) (unat now) (real_of_int r)"
    by (rule simulateIrradiance_spec)
  show "\<bar>real_of_int r\<bar> \<le> 100" if "- 100 \<le> r \<and> r < 100"
    using that by (rule jitter_bound)
  show "simulateIrradiance now r = 0"
    if "hourOfDay_spec (8 * 3600) (unat now) < 6 \<or> hourOfDay_spec (8 * 3600) (unat now) > 18"
    using that by (simp add: eq irradiance_spec_def)
  show "\<bar>simulateIrradiance now r - 1200\<bar> \<le> 100"
    if "- 100 \<le> r \<and> r < 100 \<and> hourOfDay_spec (8 * 3600) (unat now) = 12"
  proof -
    have "simulateIrradiance now r = max 0 (1200 * sin (pi * (12 - 6) / 12) + real_of_int r)"
      using that by (simp add: eq irradiance_spec_def)
    also have "pi * (12 - 6) / 12 = pi / 2"
      by simp
    finally have "simulateIrradiance now r = max 0 (1200 + real_of_int r)"
      by simp
    then show ?thesis
      using jitter_bound [of r] that by simp
  qed
qed

theorem irradiance_refines_spec_witness:
  "simulateIrradiance 14400000 (- 37) = 1163 \<and> simulateIrradiance 72000000 55 = 0 \<and>
   hourOfDay_spec (8 * 3600) (unat (14400000 :: millis)) = 12 \<and>
   hourOfDay_spec (8 * 3600) (unat (72000000 :: millis)) = 4"
proof -
  have a: "hourOfDay_spec (8 * 3600) (unat (14400000 :: millis)) = 12"
    and b: "hourOfDay_spec (8 * 3600) (unat (72000000 :: millis)) = 4"
    by (simp_all add: hourOfDay_spec_def)
  have "sin (pi * (12 - 6) / 12) = (1::real)"
    by simp
  then have c: "irradiance_spec (8 * 3600) (unat (14400000 :: millis)) (real_of_int (- 37)) = 1163"
    unfolding irradiance_spec_def a by simp
  show ?thesis
    using a b c irradiance_refines_spec [of 14400000 "- 37"] irradiance_refines_spec [of 72000000 55]
    by simp
qed

subsection \<open>Holding registers\<close>

lemma unat_to_uint16:
  assumes "0 \<le> x" and "x < 65536"
  shows "real (unat (to_uint16 x)) = real_of_int \<lfloor>x\<rfloor>"
proof -
  have lo: "0 \<le> \<lfloor>x\<rfloor>"
    using assms(1) by simp
  have hi: "\<lfloor>x\<rfloor> < 65536"
    using assms(2) by (simp add: floor_less_iff)
  have "uint (word_of_int \<lfloor>x\<rfloor> :: 16 word) = \<lfloor>x\<rfloor>"
    using lo hi by (simp add: uint_word_of_int)
  then have "int (unat (to_uint16 x)) = \<lfloor>x\<rfloor>"
    using assms(1) by (simp add: to_uint16_def)
  then show ?thesis
    by (metis of_int_of_nat_eq)
qed

lemma Hreg_updateModbusRegisters:
  "Hreg (mbServer (updateModbusRegisters s)) 30001 = to_uint16 (fmul (ac_power_kw (scadaData s)) 1000)"
  "Hreg (mbServer (updateModbusRegisters s)) 30002 =
     to_uint16 (fmul (f32_val (total_energy_kwh (scadaData s))) 100)"
  "Hreg (mbServer (updateModbusRegisters s)) 30003 = to_uint16 (fmul (grid_frequency (scadaData s)) 100)"
  "Hreg (mbServer (updateModbusRegisters s)) 30004 = to_uint16 (fmul (current_rms (scadaData s)) 1000)"
  "Hreg (mbServer (updateModbusRegisters s)) 30005 = to_uint16 (float32 (voltage (scadaData s)))"
  "Hreg (mbServer (updateModbusRegisters s)) 30006 = to_uint16 (fmul (power_factor (scadaData s)) 1000)"
  "Hreg (mbServer (updateModbusRegisters s)) 30007 = to_uint16 (fmul (ambient_temp (scadaData s)) 10)"
  "Hreg (mbServer (updateModbusRegisters s)) 30008 = to_uint16 (float32 (irradiance (scadaData s)))"
  "Hreg (mbServer (updateModbusRegisters s)) 30009 = to_uint16 (fmul (efficiency (scadaData s)) 1000)"
  by (simp_all add: updateModbusRegisters_def Let_def)

text \<open>
  The whole part of a \<^verbatim>\<open>float\<close> that fits the register is less than 1 from the value
  that was rounded to it: the whole numbers of the register's range are floats.
\<close>

lemma floor_float32_near:
  assumes "0 \<le> float32 x" and "float32 x < 65536"
  shows "\<bar>real_of_int \<lfloor>float32 x\<rfloor> - x\<bar> < 1"
proof -
  define n where "n = \<lfloor>float32 x\<rfloor>"
  have n: "0 \<le> n" "n < 65536"
    using assms by (simp_all add: n_def floor_less_iff)
  have fl: "real_of_int n \<le> float32 x" "float32 x < real_of_int n + 1"
    unfolding n_def by linarith+
  have exact: "float32 (real_of_int m) = real_of_int m" if "\<bar>m\<bar> \<le> 16777216" for m
    using that by (rule float32_of_int)
  have "real_of_int n - 1 < x"
  proof (rule ccontr)
    assume "\<not> real_of_int n - 1 < x"
    then have "x \<le> real_of_int (n - 1)"
      by simp
    then have "float32 x \<le> float32 (real_of_int (n - 1))"
      by (rule float32_mono)
    also have "\<dots> = real_of_int (n - 1)"
      using n by (intro exact) simp
    finally show False
      using fl(1) by simp
  qed
  moreover have "x < real_of_int n + 1"
  proof (rule ccontr)
    assume "\<not> x < real_of_int n + 1"
    then have "real_of_int (n + 1) \<le> x"
      by simp
    then have "float32 (real_of_int (n + 1)) \<le> float32 x"
      by (rule float32_mono)
    moreover have "float32 (real_of_int (n + 1)) = real_of_int (n + 1)"
      using n by (intro exact) simp
    ultimately show False
      using fl(2) by simp
  qed
  ultimately show ?thesis
    unfolding n_def by linarith
qed

text \<open>
  While the \<^verbatim>\<open>float\<close> product fits the register, the register decodes to the field's
  \<^verbatim>\<open>float\<close> value within \<open>1 / S\<close>.
\<close>

lemma register_in_range:
  assumes "0 < S" and "float32 S = S" and "0 \<le> fmul v S" and "fmul v S < 65536"
  shows "within_resolution (float32 v) S (to_uint16 (fmul v S))"
proof -
  have y: "fmul v S = float32 (float32 v * S)"
    by (simp add: fmul_def assms(2))
  have u: "real (unat (to_uint16 (fmul v S))) = real_of_int \<lfloor>fmul v S\<rfloor>"
    using assms(3,4) by (rule unat_to_uint16)
  have near: "\<bar>real_of_int \<lfloor>fmul v S\<rfloor> - float32 v * S\<bar> < 1"
    using assms(3,4) unfolding y by (rule floor_float32_near)
  have "real_of_int \<lfloor>fmul v S\<rfloor> / S - float32 v = (real_of_int \<lfloor>fmul v S\<rfloor> - float32 v * S) / S"
    using assms(1) by (simp add: diff_divide_distrib)
  then have "\<bar>real_of_int \<lfloor>fmul v S\<rfloor> / S - float32 v\<bar> = \<bar>real_of_int \<lfloor>fmul v S\<rfloor> - float32 v * S\<bar> / S"
    using assms(1) by simp
  also have "\<dots> < 1 / S"
    using near assms(1) by (rule divide_strict_right_mono)
  finally show ?thesis
    unfolding within_resolution_def decode_reg_def u .
qed

lemma energy_register_in_range:
  assumes "0 \<le> fmul (f32_val (total_energy_kwh (scadaData s))) 100"
    and "fmul (f32_val (total_energy_kwh (scadaData s))) 100 < 65536"
  shows "within_resolution (f32_val (total_energy_kwh (scadaData s))) 100
           (Hreg (mbServer (updateModbusRegisters s)) 30002)"
  using register_in_range [of 100 "f32_val (total_energy_kwh (scadaData s))"] assms
  by (simp add: Hreg_updateModbusRegisters float32_numerals)

lemma decode_reg_bound:
  assumes "0 < S"
  shows "decode_reg w S \<le> 65535 / S"
proof -
  have "unat w < 2 ^ 16"
    using unsigned_less [of w, where ?'a = nat] by simp
  then have "unat w \<le> 65535"
    by simp
  then have "real (unat w) \<le> real 65535"
    by (rule of_nat_mono)
  then have "real (unat w) / S \<le> real 65535 / S"
    by (rule divide_right_mono) (use assms in simp)
  then show ?thesis
    unfolding decode_reg_def by simp
qed

lemma metered_registers:
  "Hreg (mbServer (updateModbusRegisters (metered T kw))) 30002 =
     to_uint16 (float32 (float32 T * 100))"
  by (simp add: Hreg_updateModbusRegisters metered_tick(7) fmul_def float32_numerals)

text \<open>
  C7. The energy register (30002, "Energy in 0.01 kWh", line 380) does not round-trip
  once the total passes 655.35 kWh: a total of 700 kWh scales to 70000, which does not
  fit 16 bits. The register then holds 4464 and decodes to 44.64 kWh, and no 16-bit
  register decodes to more than 655.35 kWh (\<open>decode_reg_bound\<close>). The total grows for
  the lifetime of the process, so it does leave the range.
\<close>

theorem energy_register_overflow:
  "f32_val (total_energy_kwh (scadaData (metered 700 1.2))) = 700 \<and>
   Hreg (mbServer (updateModbusRegisters (metered 700 1.2))) 30002 = 4464 \<and>
   decode_reg (Hreg (mbServer (updateModbusRegisters (metered 700 1.2))) 30002) 100 = 44.64 \<and>
   \<not> within_resolution 700 100 (Hreg (mbServer (updateModbusRegisters (metered 700 1.2))) 30002)"
proof -
  have r: "Hreg (mbServer (updateModbusRegisters (metered 700 1.2))) 30002 = 4464"
    unfolding metered_registers by (simp add: float32_numerals to_uint16_def)
  have v: "f32_val (total_energy_kwh (scadaData (metered 700 1.2))) = 700"
    by (simp only: metered_tick(7) float32_numerals)
  show ?thesis
    unfolding r using v by (simp add: decode_reg_def within_resolution_def)
qed

text \<open>
  The \<^verbatim>\<open>float\<close> product is rounded before the cast, so the register also leaves its
  range a step early: the \<^verbatim>\<open>float\<close> 655.3599853515625 scales to 65535.9985, which
  rounds to 65536, and the register holds 0.
\<close>

lemma energy_register_rounds_up:
  "f32_val (total_energy_kwh (scadaData (metered (5368709 / 8192) 1.2))) = 5368709 / 8192"
  "Hreg (mbServer (updateModbusRegisters (metered (5368709 / 8192) 1.2))) 30002 = 0"
proof -
  have a: "float32 (5368709 / 8192) = 5368709 / 8192"
    using float32_eval [of 9 "5368709 / 8192"] by (simp add: rne_def)
  have b: "float32 (5368709 / 8192 * 100) = 65536"
    using float32_eval [of 15 "5368709 / 8192 * 100"] by (simp add: rne_def)
  show "f32_val (total_energy_kwh (scadaData (metered (5368709 / 8192) 1.2))) = 5368709 / 8192"
    by (simp only: metered_tick(7) a)
  show "Hreg (mbServer (updateModbusRegisters (metered (5368709 / 8192) 1.2))) 30002 = 0"
    by (simp only: metered_registers a b) (simp add: to_uint16_def)
qed

text \<open>
  A total inside the range: 12.345 kWh is 12.3450002 as a \<^verbatim>\<open>float\<close>, the register
  holds 1234 and decodes to 12.34 kWh.
\<close>

lemma sample_registers:
  "Hreg (mbServer (updateModbusRegisters (metered 12.345 1.1))) 30002 = 1234"
  "within_resolution (float32 12.345) 100
     (Hreg (mbServer (updateModbusRegisters (metered 12.345 1.1))) 30002)"
proof -
  have a: "float32 12.345 = 12944671 / 1048576"
    using float32_eval [of 3 "12.345"] by (simp add: rne_def)
  have b: "float32 (12944671 / 1048576 * 100) = 2469 / 2"
    using float32_eval [of 10 "12944671 / 1048576 * 100"] by (simp add: rne_def)
  have "Hreg (mbServer (updateModbusRegisters (metered 12.345 1.1))) 30002 = to_uint16 (2469 / 2)"
    by (simp only: metered_registers a b)
  then show r: "Hreg (mbServer (updateModbusRegisters (metered 12.345 1.1))) 30002 = 1234"
    by (simp add: to_uint16_def)
  show "within_resolution (float32 12.345) 100
     (Hreg (mbServer (updateModbusRegisters (metered 12.345 1.1))) 30002)"
    unfolding r a by (simp add: within_resolution_def decode_reg_def)
qed

subsection \<open>Reads of the snapshot\<close>

lemma fast_tick_slow_fields: "slow_fields (scadaData (fast_tick e s)) = slow_fields (scadaData s)"
  by (simp add: fast_tick_def slow_fields_def Let_def)

lemma finish_calibration_scadaData: "scadaData (finish_calibration s) = scadaData s"
  by (simp add: finish_calibration_def)

lemma finish_calibration_lastSendTime: "lastSendTime (finish_calibration s) = lastSendTime s"
  by (simp add: finish_calibration_def)

lemma loop_no_refresh:
  assumes "\<not> refreshes e s"
  shows "slow_fields (scadaData (loop e s)) = slow_fields (scadaData s)"
    and "\<not> measures e s \<Longrightarrow> scadaData (loop e s) = scadaData s"
  using assms
  by (auto simp add: loop_def refreshes_def measures_def Let_def calibration_sample_def
      fast_tick_slow_fields finish_calibration_scadaData fast_due_def
      finish_calibration_lastSendTime)

lemma run_no_refresh:
  "no_refresh es s \<Longrightarrow> slow_fields (scadaData (run es s)) = slow_fields (scadaData s)"
  by (induction es arbitrary: s) (simp_all add: loop_no_refresh)

lemma run_no_refresh_no_measure:
  "no_refresh es s \<Longrightarrow> no_measure es s \<Longrightarrow> scadaData (run es s) = scadaData s"
  by (induction es arbitrary: s) (simp_all add: loop_no_refresh)


text \<open>
  The state of a sample run after the first slow and fast ticks: one calibration
  sample at 2 s, then at 120 s the end of calibration and both ticks.
\<close>

lemma after_first_ticks:
  "scadaData (run [at_time 2000, at_time 120000] (setup_state 0)) =
     \<lparr> current_rms = 0, voltage = 220, ac_power_kw = 0, total_energy_kwh = to_f32 0,
       grid_frequency = 50, power_factor = 0.95, ambient_temp = 25,
       irradiance = simulateIrradiance 120000 0,
       system_status = 1, efficiency = 0.96, timestamp = 120000 \<rparr>"
  "lastSendTime (run [at_time 2000, at_time 120000] (setup_state 0)) = 120000"
  "last_scada_update (run [at_time 2000, at_time 120000] (setup_state 0)) = 120000"
  "calibrated (run [at_time 2000, at_time 120000] (setup_state 0))"
  "noiseFloor (run [at_time 2000, at_time 120000] (setup_state 0)) = 0"
  by (simp_all add: loop_def in_calibration_def calibration_sample_def finish_calibration_def
  slow_due_def slow_tick_def fast_due_def fast_tick_def pollModbusDevices_def
  updateModbusRegisters_def updateSCADAData_def sendInterval_def gridVoltage_def Let_def at_time_def setup_state_def)




subsection \<open>Simulated ranges and alarms\<close>

lemma draw_bounds:
  fixes r :: int
  assumes "lo \<le> r" and "r < hi"
  shows "real_of_int lo \<le> real_of_int r" and "real_of_int r \<le> real_of_int (hi - 1)"
  using assms by simp_all

lemma updateSCADAData_in_range:
  assumes "random_ok ti"
  shows "simulated_in_range (scadaData (updateSCADAData ti s))"
proof -
  have f: "- 10 \<le> real_of_int (r_freq ti)" "real_of_int (r_freq ti) \<le> 9"
    using assms draw_bounds [of "- 10" "r_freq ti" 10] by (simp_all add: random_ok_def)
  have p: "- 5 \<le> real_of_int (r_pf ti)" "real_of_int (r_pf ti) \<le> 4"
    using assms draw_bounds [of "- 5" "r_pf ti" 5] by (simp_all add: random_ok_def)
  have t: "- 50 \<le> real_of_int (r_temp ti)" "real_of_int (r_temp ti) \<le> 149"
    using assms draw_bounds [of "- 50" "r_temp ti" 150] by (simp_all add: random_ok_def)
  have e: "- 20 \<le> real_of_int (r_eff ti)" "real_of_int (r_eff ti) \<le> 19"
    using assms draw_bounds [of "- 20" "r_eff ti" 20] by (simp_all add: random_ok_def)
  show ?thesis
    using f p t e by (simp add: simulated_in_range_def updateSCADAData_def Let_def)
qed

lemma updateModbusRegisters_flags:
  "Coil (mbServer (updateModbusRegisters s)) 4 \<longleftrightarrow>
     grid_frequency (scadaData s) > 49.5 \<and> grid_frequency (scadaData s) < 50.5"
  "Ists (mbServer (updateModbusRegisters s)) 1 \<longleftrightarrow> ambient_temp (scadaData s) > 40"
  "Ists (mbServer (updateModbusRegisters s)) (Suc 0) \<longleftrightarrow> ambient_temp (scadaData s) > 40"
  "Ists (mbServer (updateModbusRegisters s)) 2 \<longleftrightarrow> power_factor (scadaData s) < 0.9"
  "Ists (mbServer (updateModbusRegisters s)) 3 \<longleftrightarrow> efficiency (scadaData s) < 0.9"
  by (simp_all add: updateModbusRegisters_def Let_def)

lemma slow_tick_flags:
  assumes "random_ok (tick e)"
  shows "Coil (mbServer (slow_tick e s)) 4" and "no_alarm (slow_tick e s)"
proof -
  have "simulated_in_range (scadaData (updateSCADAData (tick e) s))"
    using assms by (rule updateSCADAData_in_range)
  then show "Coil (mbServer (slow_tick e s)) 4" and "no_alarm (slow_tick e s)"
    by (simp_all add: slow_tick_def pollModbusDevices_def updateModbusRegisters_flags
        simulated_in_range_def no_alarm_def)
qed

lemma mbServer_unchanged:
  "mbServer (fast_tick e s) = mbServer s"
  "mbServer (finish_calibration s) = mbServer s"
  "mbServer (calibration_sample e s) = mbServer s"
  by (simp_all add: fast_tick_def finish_calibration_def calibration_sample_def Let_def)

lemma loop_flags:
  assumes "random_ok (tick e)"
  shows "no_alarm s \<Longrightarrow> no_alarm (loop e s)"
    and "Coil (mbServer s) 4 \<Longrightarrow> Coil (mbServer (loop e s)) 4"
  using slow_tick_flags [OF assms, of "finish_calibration s"]
  by (simp_all add: loop_def Let_def no_alarm_def mbServer_unchanged)

lemma run_flags:
  assumes "list_all (\<lambda>e. random_ok (tick e)) es"
  shows "no_alarm s \<Longrightarrow> no_alarm (run es s)"
    and "Coil (mbServer s) 4 \<Longrightarrow> Coil (mbServer (run es s)) 4"
  using assms by (induction es arbitrary: s) (simp_all add: loop_flags)

text \<open>
  C10. Whatever \<^verbatim>\<open>random\<close> draws within its contract, every slow tick leaves the
  grid frequency in 49.90 .. 50.09, the power factor in 0.945 .. 0.954, the efficiency in
  0.940 .. 0.979 and the temperature in 20.0 .. 39.9, sets the Grid OK coil and clears
  the three alarm inputs. Along any run from boot the alarm inputs are never set, and
  the Grid OK coil, once set, stays set.
\<close>

theorem simulation_raises_no_alarm:
  "(random_ok (tick e) \<longrightarrow>
      simulated_in_range (scadaData (slow_tick e s)) \<and>
      Coil (mbServer (slow_tick e s)) 4 \<and>
      \<not> Ists (mbServer (slow_tick e s)) 1 \<and>
      \<not> Ists (mbServer (slow_tick e s)) 2 \<and>
      \<not> Ists (mbServer (slow_tick e s)) 3) \<and>
   (list_all (\<lambda>e. random_ok (tick e)) es \<longrightarrow>
      \<not> Ists (mbServer (run es (setup_state t0))) 1 \<and>
      \<not> Ists (mbServer (run es (setup_state t0))) 2 \<and>
      \<not> Ists (mbServer (run es (setup_state t0))) 3) \<and>
   (list_all (\<lambda>e. random_ok (tick e)) es \<and> Coil (mbServer s) 4 \<longrightarrow>
      Coil (mbServer (run es s)) 4)"
proof (intro conjI impI)
  assume ok: "random_ok (tick e)"
  have "scadaData (slow_tick e s) = scadaData (updateSCADAData (tick e) s)"
    by (simp add: slow_tick_def pollModbusDevices_def updateModbusRegisters_def Let_def)
  then show "simulated_in_range (scadaData (slow_tick e s))"
    using ok by (simp add: updateSCADAData_in_range)
  show "Coil (mbServer (slow_tick e s)) 4"
    using ok by (rule slow_tick_flags)
  have "no_alarm (slow_tick e s)"
    using ok by (rule slow_tick_flags)
  then show "\<not> Ists (mbServer (slow_tick e s)) 1"
    and "\<not> Ists (mbServer (slow_tick e s)) 2"
    and "\<not> Ists (mbServer (slow_tick e s)) 3"
    by (simp_all add: no_alarm_def)
next
  assume "list_all (\<lambda>e. random_ok (tick e)) es"
  moreover have "no_alarm (setup_state t0)"
    by (simp add: no_alarm_def setup_state_def)
  ultimately have "no_alarm (run es (setup_state t0))"
    by (simp add: run_flags)
  then show "\<not> Ists (mbServer (run es (setup_state t0))) 1"
    and "\<not> Ists (mbServer (run es (setup_state t0))) 2"
    and "\<not> Ists (mbServer (run es (setup_state t0))) 3"
    by (simp_all add: no_alarm_def)
next
  assume "list_all (\<lambda>e. random_ok (tick e)) es \<and> Coil (mbServer s) 4"
  then show "Coil (mbServer (run es s)) 4"
    by (simp add: run_flags)
qed

theorem simulation_raises_no_alarm_witness:
  "random_ok (tick ((at_time 120000)\<lparr>tick := (tick (at_time 120000))
       \<lparr>r_freq := - 10, r_pf := 4, r_temp := 149, r_eff := - 20\<rparr>\<rparr>)) \<and>
   simulated_in_range (scadaData (slow_tick ((at_time 120000)\<lparr>tick := (tick (at_time 120000))
       \<lparr>r_freq := - 10, r_pf := 4, r_temp := 149, r_eff := - 20\<rparr>\<rparr>) (setup_state 0))) \<and>
   Coil (mbServer (slow_tick ((at_time 120000)\<lparr>tick := (tick (at_time 120000))
       \<lparr>r_freq := - 10, r_pf := 4, r_temp := 149, r_eff := - 20\<rparr>\<rparr>) (setup_state 0))) 4 \<and>
   list_all (\<lambda>e. random_ok (tick e)) [at_time 2000, at_time 120000, at_time 126000] \<and>
   \<not> Ists (mbServer (run [at_time 2000, at_time 120000, at_time 126000] (setup_state 0))) 1 \<and>
   Coil (mbServer (run [at_time 2000, at_time 120000, at_time 126000]
     (slow_tick ((at_time 120000)\<lparr>tick := (tick (at_time 120000))
       \<lparr>r_freq := - 10, r_pf := 4, r_temp := 149, r_eff := - 20\<rparr>\<rparr>) (setup_state 0)))) 4"
proof -
  have a: "random_ok (tick ((at_time 120000)\<lparr>tick := (tick (at_time 120000))
       \<lparr>r_freq := - 10, r_pf := 4, r_temp := 149, r_eff := - 20\<rparr>\<rparr>))"
    by (simp add: random_ok_def at_time_def)
  have b: "list_all (\<lambda>e. random_ok (tick e)) [at_time 2000, at_time 120000, at_time 126000]"
    by (simp add: random_ok_def at_time_def)
  have c: "Coil (mbServer (slow_tick ((at_time 120000)\<lparr>tick := (tick (at_time 120000))
       \<lparr>r_freq := - 10, r_pf := 4, r_temp := 149, r_eff := - 20\<rparr>\<rparr>) (setup_state 0))) 4"
    using a simulation_raises_no_alarm [of "(at_time 120000)\<lparr>tick := (tick (at_time 120000))
       \<lparr>r_freq := - 10, r_pf := 4, r_temp := 149, r_eff := - 20\<rparr>\<rparr>" "setup_state 0"]
    by blast
  show ?thesis
    using a b c
      simulation_raises_no_alarm [of "(at_time 120000)\<lparr>tick := (tick (at_time 120000))
        \<lparr>r_freq := - 10, r_pf := 4, r_temp := 149, r_eff := - 20\<rparr>\<rparr>" "setup_state 0"
        "[at_time 2000, at_time 120000, at_time 126000]" 0]
      simulation_raises_no_alarm [of "at_time 120000"
        "slow_tick ((at_time 120000)\<lparr>tick := (tick (at_time 120000))
          \<lparr>r_freq := - 10, r_pf := 4, r_temp := 149, r_eff := - 20\<rparr>\<rparr>) (setup_state 0)"
        "[at_time 2000, at_time 120000, at_time 126000]" 0]
    by blast
qed

subsection \<open>The derived report\<close>




end
